theory Spec2Isabelle
  imports Main "HOL-Library.Word" "HOL-Library.Sublist"
begin

section \<open>Strings of the host language\<close>

text \<open>
  A TypeScript string is a sequence of UTF-16 code units; \<open>length\<close>, indexing, equality
  and the regular expressions of \<^verbatim>\<open>stash.ts\<close> (written without the \<^verbatim>\<open>u\<close> flag) all work on
  code units. A string is therefore a list of 16-bit words, and \<open>js\<close> embeds an ASCII
  literal.
\<close>

type_synonym js_string = "16 word list"

definition js :: "string \<Rightarrow> js_string" where
  "js s = map of_char s"

text \<open>
  The line terminators of ECMAScript: LF, CR, LINE SEPARATOR and PARAGRAPH SEPARATOR. The
  atom \<^verbatim>\<open>.\<close> matches every code unit but these, and \<^verbatim>\<open>^\<close> under the \<^verbatim>\<open>m\<close> flag matches
  right after one of them.
\<close>

definition isLineTerminator :: "16 word \<Rightarrow> bool" where
  "isLineTerminator c \<longleftrightarrow> c = 0x000A \<or> c = 0x000D \<or> c = 0x2028 \<or> c = 0x2029"

text \<open>The white space that \<^verbatim>\<open>String.prototype.trim\<close> removes besides the line terminators.\<close>

definition isWhiteSpace :: "16 word \<Rightarrow> bool" where
  "isWhiteSpace c \<longleftrightarrow>
     c = 0x0009 \<or> c = 0x000B \<or> c = 0x000C \<or> c = 0x0020 \<or> c = 0x00A0 \<or> c = 0xFEFF \<or>
     c = 0x1680 \<or> (0x2000 \<le> c \<and> c \<le> 0x200A) \<or> c = 0x202F \<or> c = 0x205F \<or> c = 0x3000"

definition trim :: "js_string \<Rightarrow> js_string" where
  "trim s =
     (let strip = dropWhile (\<lambda>c. isWhiteSpace c \<or> isLineTerminator c)
      in rev (strip (rev (strip s))))"

text \<open>
  \<^verbatim>\<open>s.split(sep)\<close> for a separator of one code unit: the pieces between the separators,
  empty pieces kept, one empty piece for the empty string.
\<close>

fun split_on :: "16 word \<Rightarrow> js_string \<Rightarrow> js_string list" where
  "split_on sep [] = [[]]"
| "split_on sep (c # cs) =
     (if c = sep then [] # split_on sep cs
      else (case split_on sep cs of
              [] \<Rightarrow> [[c]]
            | p # ps \<Rightarrow> (c # p) # ps))"

text \<open>Matching a literal at the start of the input; the result is the rest of the input.\<close>

fun match_literal :: "js_string \<Rightarrow> js_string \<Rightarrow> js_string option" where
  "match_literal [] s = Some s"
| "match_literal (p # ps) [] = None"
| "match_literal (p # ps) (c # cs) = (if p = c then match_literal ps cs else None)"


section \<open>The marker and its regular expression\<close>

definition DesktopStashEntryMarker :: js_string where
  "DesktopStashEntryMarker = js ''!!GitHub_Desktop''"

text \<open>
  \<^verbatim>\<open>const desktopStashEntryMessageRe = /!!GitHub_Desktop<(.+)>$/\<close>

  The greedy \<^verbatim>\<open>.+\<close> first takes the longest run of code units that are not line terminators
  (\<open>n\<close> of them, at least one) and gives them back one at a time until the rest of the
  pattern, \<^verbatim>\<open>>\<close> followed by the end of the input, matches.
\<close>

fun dot_plus_backtrack :: "nat \<Rightarrow> js_string \<Rightarrow> js_string option" where
  "dot_plus_backtrack 0 s = None"
| "dot_plus_backtrack (Suc n) s =
     (case match_literal (js ''>'') (drop (Suc n) s) of
        Some [] \<Rightarrow> Some (take (Suc n) s)
      | _ \<Rightarrow> dot_plus_backtrack n s)"

text \<open>
  One attempt of the pattern at the start of \<open>s\<close>. The result is the match array: the
  whole match, then capture group 1.
\<close>

definition match_at :: "js_string \<Rightarrow> js_string list option" where
  "match_at s =
     (case match_literal (DesktopStashEntryMarker @ js ''<'') s of
        None \<Rightarrow> None
      | Some rest \<Rightarrow>
          (case dot_plus_backtrack
                  (length (takeWhile (\<lambda>c. \<not> isLineTerminator c) rest)) rest of
             None \<Rightarrow> None
           | Some g \<Rightarrow> Some [DesktopStashEntryMarker @ js ''<'' @ g @ js ''>'', g]))"

text \<open>
  \<^verbatim>\<open>desktopStashEntryMessageRe.exec(message)\<close>: the pattern is not anchored at its start, so
  the attempts run from the first position of the message to the last and the leftmost
  one that succeeds is the result.
\<close>

fun desktopStashEntryMessageRe_exec :: "js_string \<Rightarrow> js_string list option" where
  "desktopStashEntryMessageRe_exec [] = match_at []"
| "desktopStashEntryMessageRe_exec (c # cs) =
     (case match_at (c # cs) of
        Some m \<Rightarrow> Some m
      | None \<Rightarrow> desktopStashEntryMessageRe_exec cs)"

text \<open>
  \<^verbatim>\<open>function extractBranchFromMessage(message: string): string | null {
    const match = desktopStashEntryMessageRe.exec(message)
    return match === null || match[1].length === 0 ? null : match[1]
  }\<close>
\<close>

definition extractBranchFromMessage :: "js_string \<Rightarrow> js_string option" where
  "extractBranchFromMessage message =
     (case desktopStashEntryMessageRe_exec message of
        None \<Rightarrow> None
      | Some match \<Rightarrow> if length (match ! 1) = 0 then None else Some (match ! 1))"

text \<open>
  \<^verbatim>\<open>export function createDesktopStashMessage(branchName: string) {
    return `${DesktopStashEntryMarker}<${branchName}>`
  }\<close>
\<close>

definition createDesktopStashMessage :: "js_string \<Rightarrow> js_string" where
  "createDesktopStashMessage branchName =
     DesktopStashEntryMarker @ js ''<'' @ branchName @ js ''>''"

text \<open>
  \<^verbatim>\<open>const errorPrefixRe = /^error: /m\<close>

  Under the \<^verbatim>\<open>m\<close> flag \<^verbatim>\<open>^\<close> holds at the start of the input and after every line
  terminator; \<open>bol\<close> says whether it holds at the current position. The match array has
  the whole match only.
\<close>

fun errorPrefixRe_exec_from :: "bool \<Rightarrow> js_string \<Rightarrow> js_string list option" where
  "errorPrefixRe_exec_from bol [] =
     (if bol \<and> match_literal (js ''error: '') [] \<noteq> None then Some [js ''error: ''] else None)"
| "errorPrefixRe_exec_from bol (c # cs) =
     (if bol \<and> match_literal (js ''error: '') (c # cs) \<noteq> None then Some [js ''error: '']
      else errorPrefixRe_exec_from (isLineTerminator c) cs)"

definition errorPrefixRe_exec :: "js_string \<Rightarrow> js_string list option" where
  "errorPrefixRe_exec s = errorPrefixRe_exec_from True s"


section \<open>Data model\<close>

record Repository =
  path :: js_string

record Branch =
  name :: js_string

text \<open>The parameter type \<^verbatim>\<open>Branch | string\<close>.\<close>

datatype BranchOrName = IsBranch Branch | IsString js_string

datatype StashedChangesLoadStates = NotLoaded | Loading | Loaded

record StashedFileChanges =
  kind :: StashedChangesLoadStates

text \<open>One record of the log parser: the keys given to \<^verbatim>\<open>createLogParser\<close>.\<close>

record LogEntry =
  name :: js_string
  stashSha :: js_string
  message :: js_string
  tree :: js_string
  parents :: js_string

record IStashEntry =
  name :: js_string
  stashSha :: js_string
  branchName :: js_string
  tree :: js_string
  parents :: "js_string list"
  files :: StashedFileChanges

record StashResult =
  desktopEntries :: "IStashEntry list"
  stashEntryCount :: int

datatype DugiteError = MergeConflicts | OtherDugiteError nat

record IGitResult =
  exitCode :: int
  stdout :: js_string
  stderr :: js_string

record GitExecutionOptions =
  successExitCodes :: "int set option"
  expectedErrors :: "DugiteError set option"

text \<open>
  What an operation can throw: the \<^verbatim>\<open>GitError\<close> of \<^verbatim>\<open>./core\<close>, built from the result and the
  arguments of the failed command, or whatever a collaborator (the file staging, the log
  parser) raises.
\<close>

datatype error = GitError IGitResult "js_string list" | CollaboratorError nat

datatype log_line =
  CreateExitCodeReported int js_string
| PopExitCodeReported int


section \<open>The collaborators and the state\<close>

text \<open>
  The repository on disk lives outside the program, in a world of some type \<open>'w\<close>. The
  collaborators that \<^verbatim>\<open>stash.ts\<close> imports and that are not part of it are parameters:
  \<^item> \<open>run\<close>: the process runner under \<^verbatim>\<open>git\<close>, from the world, the arguments, the
    working path and the operation label to the result and the new world;
  \<^item> \<open>errorCategory\<close>: the known error category of a result, if it has one;
  \<^item> \<open>formatArgs\<close> and \<open>parse\<close>: what
    \<^verbatim>\<open>createLogParser({name: '%gD', stashSha: '%H', message: '%gs', tree: '%T', parents: '%P'})\<close>
    returns; the parser may report a malformed stream;
  \<^item> \<open>stageFiles\<close> and \<open>withIncludeAll\<close>: the file staging, over file changes of some
    type \<open>'f\<close>.
\<close>

record ('w, 'f) env =
  run :: "'w \<Rightarrow> js_string list \<Rightarrow> js_string \<Rightarrow> js_string \<Rightarrow> IGitResult \<times> 'w"
  errorCategory :: "IGitResult \<Rightarrow> DugiteError option"
  formatArgs :: "js_string list"
  parse :: "js_string \<Rightarrow> error + LogEntry list"
  stageFiles :: "'w \<Rightarrow> Repository \<Rightarrow> 'f list \<Rightarrow> (error + unit) \<times> 'w"
  withIncludeAll :: "'f \<Rightarrow> bool \<Rightarrow> 'f"

text \<open>
  The state an operation runs in: the world, the arguments of every command given to the
  runner so far (oldest first), and the lines written with \<^verbatim>\<open>log.info\<close>.
\<close>

record 'w session =
  world :: 'w
  invocations :: "js_string list list"
  logged :: "log_line list"

type_synonym ('w, 'a) action = "'w session \<Rightarrow> (error + 'a) \<times> 'w session"

definition return :: "'a \<Rightarrow> ('w, 'a) action" where
  "return a s = (Inr a, s)"

definition throw :: "error \<Rightarrow> ('w, 'a) action" where
  "throw e s = (Inl e, s)"

text \<open>\<^verbatim>\<open>const x = await m; k(x)\<close>: a rejected promise ends the operation with its error.\<close>

definition await :: "('w, 'a) action \<Rightarrow> ('a \<Rightarrow> ('w, 'b) action) \<Rightarrow> ('w, 'b) action" where
  "await m k s = (case m s of (Inl e, s') \<Rightarrow> (Inl e, s') | (Inr a, s') \<Rightarrow> k a s')"

definition log_info :: "log_line \<Rightarrow> ('w, unit) action" where
  "log_info l s = (Inr (), s\<lparr>logged := logged s @ [l]\<rparr>)"

text \<open>
  Modelled from the spec: the helper \<^verbatim>\<open>git\<close> of \<^verbatim>\<open>./core\<close>, which is not among the sources.
  It runs the command and returns \<^verbatim>\<open>{exitCode, stdout, stderr}\<close>; \<^verbatim>\<open>successExitCodes\<close> is
  the allow-list of exit codes that do not raise (exit code 0 alone when the caller gives
  none), \<^verbatim>\<open>expectedErrors\<close> the allow-list of known error categories that are tolerated;
  every other result is fatal and raises a \<^verbatim>\<open>GitError\<close> with the result and the arguments.
\<close>

definition git ::
  "('w, 'f) env \<Rightarrow> js_string list \<Rightarrow> js_string \<Rightarrow> js_string \<Rightarrow> GitExecutionOptions
     \<Rightarrow> ('w, IGitResult) action" where
  "git E args pth label opts s =
     (case run E (world s) args pth label of
        (result, w') \<Rightarrow>
          (let s' = s\<lparr>world := w', invocations := invocations s @ [args]\<rparr>;
               acceptableExitCode =
                 (exitCode result \<in> (case successExitCodes opts of None \<Rightarrow> {0} | Some c \<Rightarrow> c));
               acceptableError =
                 (case errorCategory E result of
                    None \<Rightarrow> False
                  | Some e \<Rightarrow> (case expectedErrors opts of None \<Rightarrow> False | Some x \<Rightarrow> e \<in> x))
           in if acceptableExitCode \<or> acceptableError then (Inr result, s')
              else (Inl (GitError result args), s')))"

definition no_options :: GitExecutionOptions where
  "no_options = \<lparr>successExitCodes = None, expectedErrors = None\<rparr>"

definition stage :: "('w, 'f) env \<Rightarrow> Repository \<Rightarrow> 'f list \<Rightarrow> ('w, unit) action" where
  "stage E repository fs s =
     (case stageFiles E (world s) repository fs of (r, w') \<Rightarrow> (r, s\<lparr>world := w'\<rparr>))"


section \<open>The operations of stash.ts\<close>

text \<open>
  The loop of \<^verbatim>\<open>getStashes\<close>:
  \<^verbatim>\<open>for (const { name, message, stashSha, tree, parents } of entries) {
    const branchName = extractBranchFromMessage(message)
    if (branchName !== null) {
      desktopEntries.push({ name, stashSha, branchName, tree,
        parents: parents.length > 0 ? parents.split(' ') : [], files })
    }
  }\<close>
  The second argument is the array \<^verbatim>\<open>desktopEntries\<close> as pushed so far.
\<close>

fun collectDesktopEntries :: "LogEntry list \<Rightarrow> IStashEntry list \<Rightarrow> IStashEntry list" where
  "collectDesktopEntries [] pushed = pushed"
| "collectDesktopEntries (e # entries) pushed =
     (case extractBranchFromMessage (message e) of
        None \<Rightarrow> collectDesktopEntries entries pushed
      | Some b \<Rightarrow>
          collectDesktopEntries entries
            (pushed @
              [\<lparr>name = LogEntry.name e, stashSha = LogEntry.stashSha e, branchName = b,
                tree = LogEntry.tree e,
                parents = (if length (LogEntry.parents e) > 0
                           then split_on 0x20 (LogEntry.parents e) else []),
                files = \<lparr>kind = NotLoaded\<rparr>\<rparr>]))"

definition getStashes_args :: "('w, 'f) env \<Rightarrow> js_string list" where
  "getStashes_args E = [js ''log'', js ''-g''] @ formatArgs E @ [js ''refs/stash'']"

definition getStashes :: "('w, 'f) env \<Rightarrow> Repository \<Rightarrow> ('w, StashResult) action" where
  "getStashes E repository =
     await (git E (getStashes_args E) (path repository) (js ''getStashEntries'')
              \<lparr>successExitCodes = Some {0, 128}, expectedErrors = None\<rparr>)
       (\<lambda>result.
          if exitCode result = 128 then return \<lparr>desktopEntries = [], stashEntryCount = 0\<rparr>
          else (case parse E (stdout result) of
                  Inl e \<Rightarrow> throw e
                | Inr entries \<Rightarrow>
                    return \<lparr>desktopEntries = collectDesktopEntries entries [],
                            stashEntryCount = int (length entries) - 1\<rparr>))"

definition getStashEntryMatchingSha ::
  "('w, 'f) env \<Rightarrow> Repository \<Rightarrow> js_string \<Rightarrow> ('w, IStashEntry option) action" where
  "getStashEntryMatchingSha E repository sha =
     await (getStashes E repository)
       (\<lambda>stash. return (find (\<lambda>e. stashSha e = sha) (desktopEntries stash)))"

definition dropDesktopStashEntry_args :: "IStashEntry \<Rightarrow> js_string list" where
  "dropDesktopStashEntry_args entryToDelete = [js ''stash'', js ''drop'', name entryToDelete]"

definition dropDesktopStashEntry ::
  "('w, 'f) env \<Rightarrow> Repository \<Rightarrow> js_string \<Rightarrow> ('w, unit) action" where
  "dropDesktopStashEntry E repository sha =
     await (getStashEntryMatchingSha E repository sha)
       (\<lambda>entryToDelete.
          case entryToDelete of
            None \<Rightarrow> return ()
          | Some e \<Rightarrow>
              await (git E (dropDesktopStashEntry_args e) (path repository)
                       (js ''dropStashEntry'') no_options)
                (\<lambda>_. return ()))"

text \<open>
  \<^verbatim>\<open>moveStashEntry\<close>: the message is
  \<^verbatim>\<open>`On ${branchName}: ${createDesktopStashMessage(branchName)}`\<close>, the first command
  \<^verbatim>\<open>['commit-tree', ...parents.flatMap(p => ['-p', p]), '-m', message, '--no-gpg-sign', tree]\<close>
  and the second \<^verbatim>\<open>['stash', 'store', '-m', message, commitId.trim()]\<close>, where
  \<^verbatim>\<open>commitId\<close> is the output of the first.
\<close>

definition moveStashEntry_message :: "js_string \<Rightarrow> js_string" where
  "moveStashEntry_message branch =
     js ''On '' @ branch @ js '': '' @ createDesktopStashMessage branch"

definition commit_tree_args :: "IStashEntry \<Rightarrow> js_string \<Rightarrow> js_string list" where
  "commit_tree_args entry branch =
     (let parentArgs = concat (map (\<lambda>p. [js ''-p'', p]) (parents entry))
      in [js ''commit-tree''] @ parentArgs @
         [js ''-m'', moveStashEntry_message branch, js ''--no-gpg-sign'', tree entry])"

definition stash_store_args :: "js_string \<Rightarrow> js_string \<Rightarrow> js_string list" where
  "stash_store_args branch commitId =
     [js ''stash'', js ''store'', js ''-m'', moveStashEntry_message branch, trim commitId]"

definition moveStashEntry ::
  "('w, 'f) env \<Rightarrow> Repository \<Rightarrow> IStashEntry \<Rightarrow> js_string \<Rightarrow> ('w, unit) action" where
  "moveStashEntry E repository entry branch =
     await (git E (commit_tree_args entry branch)
              (path repository) (js ''moveStashEntryToBranch'') no_options)
       (\<lambda>r. await (git E (stash_store_args branch (stdout r))
                      (path repository) (js ''moveStashEntryToBranch'') no_options)
               (\<lambda>_. dropDesktopStashEntry E repository (stashSha entry)))"

definition branch_or_name :: "BranchOrName \<Rightarrow> js_string" where
  "branch_or_name branch = (case branch of IsString s \<Rightarrow> s | IsBranch b \<Rightarrow> Branch.name b)"

definition getLastDesktopStashEntryForBranch ::
  "('w, 'f) env \<Rightarrow> Repository \<Rightarrow> BranchOrName \<Rightarrow> ('w, IStashEntry option) action" where
  "getLastDesktopStashEntryForBranch E repository branch =
     await (getStashes E repository)
       (\<lambda>stash.
          let b = branch_or_name branch
          in return (find (\<lambda>stash. branchName stash = b) (desktopEntries stash)))"

definition no_local_changes :: js_string where
  "no_local_changes = js ''No local changes to save'' @ [0x000A]"

definition createDesktopStashEntry_args :: "BranchOrName \<Rightarrow> js_string list" where
  "createDesktopStashEntry_args branch =
     [js ''stash'', js ''push'', js ''-m'', createDesktopStashMessage (branch_or_name branch)]"

definition createDesktopStashEntry ::
  "('w, 'f) env \<Rightarrow> Repository \<Rightarrow> BranchOrName \<Rightarrow> 'f list \<Rightarrow> ('w, bool) action" where
  "createDesktopStashEntry E repository branch untrackedFilesToStage =
     (let fullySelectedUntrackedFiles =
            map (\<lambda>x. withIncludeAll E x True) untrackedFilesToStage
      in await (stage E repository fullySelectedUntrackedFiles)
           (\<lambda>_. let args = createDesktopStashEntry_args branch
                 in await (git E args (path repository) (js ''createStashEntry'')
                             \<lparr>successExitCodes = Some {0, 1}, expectedErrors = None\<rparr>)
                      (\<lambda>result.
                         await (if exitCode result = 1
                                then (case errorPrefixRe_exec (stderr result) of
                                        None \<Rightarrow>
                                          log_info (CreateExitCodeReported (exitCode result)
                                                      (stderr result))
                                      | Some matches \<Rightarrow>
                                          if length matches > 0
                                          then throw (GitError result args)
                                          else log_info (CreateExitCodeReported
                                                           (exitCode result) (stderr result)))
                                else return ())
                           (\<lambda>_. if stdout result = no_local_changes then return False
                                 else return True))))"

definition popStashEntry_args :: "IStashEntry \<Rightarrow> js_string list" where
  "popStashEntry_args stashToPop = [js ''stash'', js ''pop'', js ''--quiet'', name stashToPop]"

definition popStashEntry ::
  "('w, 'f) env \<Rightarrow> Repository \<Rightarrow> js_string \<Rightarrow> ('w, unit) action" where
  "popStashEntry E repository sha =
     await (getStashEntryMatchingSha E repository sha)
       (\<lambda>stashToPop.
          case stashToPop of
            None \<Rightarrow> return ()
          | Some e \<Rightarrow>
              (let args = popStashEntry_args e
               in await (git E args (path repository) (js ''popStashEntry'')
                           \<lparr>successExitCodes = Some {0, 1},
                            expectedErrors = Some {MergeConflicts}\<rparr>)
                    (\<lambda>result.
                       if exitCode result = 1
                       then (if length (stderr result) > 0
                             then throw (GitError result args)
                             else await (log_info (PopExitCodeReported (exitCode result)))
                                    (\<lambda>_. dropDesktopStashEntry E repository sha))
                       else return ())))"


section \<open>Predicates of the statements\<close>

text \<open>
  The lines of a text, to say what "stderr contains a line beginning with an error
  marker" means: the pieces between the line terminators.
\<close>

fun js_lines :: "js_string \<Rightarrow> js_string list" where
  "js_lines [] = [[]]"
| "js_lines (c # cs) =
     (if isLineTerminator c then [] # js_lines cs
      else (case js_lines cs of
              [] \<Rightarrow> [[c]]
            | l # ls \<Rightarrow> (c # l) # ls))"

definition has_error_line :: "js_string \<Rightarrow> bool" where
  "has_error_line s = list_ex (prefix (js ''error: '')) (js_lines s)"

definition noLineTerminator :: "js_string \<Rightarrow> bool" where
  "noLineTerminator s = list_all (\<lambda>c. \<not> isLineTerminator c) s"

text \<open>The marker with its opening bracket, the literal the pattern starts with.\<close>

definition markerOpen :: js_string where
  "markerOpen = DesktopStashEntryMarker @ js ''<''"


section \<open>A scripted repository\<close>

text \<open>
  A world to run the operations in: the runner answers the commands with the results of
  a script, in order, whatever the command is, and with exit code 2 once the script is
  over. The parser knows one stream, \<^verbatim>\<open>3\<close>, of three stashes (on the branches \<^verbatim>\<open>A\<close>, \<^verbatim>\<open>B\<close>
  and \<^verbatim>\<open>A\<close>, newest first) and the trailing record, and the empty stream, of no record.
\<close>

definition scripted_run ::
  "IGitResult list \<Rightarrow> js_string list \<Rightarrow> js_string \<Rightarrow> js_string
     \<Rightarrow> IGitResult \<times> IGitResult list" where
  "scripted_run w args pth label =
     (case w of
        [] \<Rightarrow> (\<lparr>exitCode = 2, stdout = [], stderr = []\<rparr>, [])
      | r # rs \<Rightarrow> (r, rs))"

definition demo_entries :: "LogEntry list" where
  "demo_entries =
     [\<lparr>LogEntry.name = js (''stash@'' @ ''{0}''), LogEntry.stashSha = js ''s0'',
       message = js ''On A: !!GitHub_Desktop<A>'', LogEntry.tree = js ''t0'',
       LogEntry.parents = js ''p q''\<rparr>,
      \<lparr>LogEntry.name = js (''stash@'' @ ''{1}''), LogEntry.stashSha = js ''s1'',
       message = js ''!!GitHub_Desktop<B>'', LogEntry.tree = js ''t1'',
       LogEntry.parents = js ''p''\<rparr>,
      \<lparr>LogEntry.name = js (''stash@'' @ ''{2}''), LogEntry.stashSha = js ''s2'',
       message = js ''On A: !!GitHub_Desktop<A>'', LogEntry.tree = js ''t2'',
       LogEntry.parents = []\<rparr>,
      \<lparr>LogEntry.name = [], LogEntry.stashSha = [], message = [], LogEntry.tree = [],
       LogEntry.parents = []\<rparr>]"

definition demo_parse :: "js_string \<Rightarrow> error + LogEntry list" where
  "demo_parse out =
     (if out = js ''3'' then Inr demo_entries
      else if out = [] then Inr []
      else Inl (CollaboratorError 0))"

definition demo_env :: "(IGitResult list, unit) env" where
  "demo_env =
     \<lparr>run = scripted_run, errorCategory = (\<lambda>_. None),
      formatArgs = [js ''-z'', js ''--format=%gD%x00%H%x00%gs%x00%T%x00%P''],
      parse = demo_parse,
      stageFiles = (\<lambda>w _ _. (Inr (), w)),
      withIncludeAll = (\<lambda>f _. f)\<rparr>"

definition demo_repository :: Repository where
  "demo_repository = \<lparr>path = js ''/repo''\<rparr>"

definition script :: "IGitResult list \<Rightarrow> IGitResult list session" where
  "script rs = \<lparr>world = rs, invocations = [], logged = []\<rparr>"

definition answer :: "int \<Rightarrow> js_string \<Rightarrow> js_string \<Rightarrow> IGitResult" where
  "answer code out err = \<lparr>exitCode = code, stdout = out, stderr = err\<rparr>"

definition demo_owned :: "IStashEntry list" where
  "demo_owned =
     [\<lparr>name = js (''stash@'' @ ''{0}''), stashSha = js ''s0'', branchName = js ''A'', tree = js ''t0'',
       parents = [js ''p'', js ''q''], files = \<lparr>kind = NotLoaded\<rparr>\<rparr>,
      \<lparr>name = js (''stash@'' @ ''{1}''), stashSha = js ''s1'', branchName = js ''B'', tree = js ''t1'',
       parents = [js ''p''], files = \<lparr>kind = NotLoaded\<rparr>\<rparr>,
      \<lparr>name = js (''stash@'' @ ''{2}''), stashSha = js ''s2'', branchName = js ''A'', tree = js ''t2'',
       parents = [], files = \<lparr>kind = NotLoaded\<rparr>\<rparr>]"


section \<open>The regular expression of the marker\<close>

lemma match_literal_iff: "match_literal p s = Some r \<longleftrightarrow> s = p @ r"
  by (induction p s rule: match_literal.induct) auto

lemma match_literal_prefix: "match_literal p s \<noteq> None \<longleftrightarrow> prefix p s"
  by (induction p s rule: match_literal.induct) auto

lemma gt_test: "(case match_literal (js ''>'') t of Some [] \<Rightarrow> a | _ \<Rightarrow> b) = (if t = js ''>'' then a else b)"
proof (cases "match_literal (js ''>'') t")
  case None
  then have "t \<noteq> js ''>''" using match_literal_iff [of "js ''>''" t "[]"] by auto
  with None show ?thesis by simp
next
  case (Some r)
  then have "t = js ''>'' @ r" by (simp add: match_literal_iff)
  with Some show ?thesis by (cases r) auto
qed

lemma length_gt: "length (js ''>'') = 1" by (simp add: js_def)

lemma backtrack_iff:
  "dot_plus_backtrack n s = Some g \<longleftrightarrow> g \<noteq> [] \<and> length g \<le> n \<and> s = g @ js ''>''"
proof (induction n)
  case 0 show ?case by simp
next
  case (Suc n)
  show ?case
  proof (cases "drop (Suc n) s = js ''>''")
    case True
    have "length (drop (Suc n) s) = 1" using True length_gt by simp
    then have len: "length s = Suc (Suc n)" by simp
    have s: "take (Suc n) s @ js ''>'' = s" using True by (metis append_take_drop_id)
    have bt: "dot_plus_backtrack (Suc n) s = Some (take (Suc n) s)"
      using True by (simp add: gt_test)
    show ?thesis
    proof
      assume "dot_plus_backtrack (Suc n) s = Some g"
      then have "g = take (Suc n) s" using bt by simp
      then show "g \<noteq> [] \<and> length g \<le> Suc n \<and> s = g @ js ''>''"
        using len s by auto
    next
      assume a: "g \<noteq> [] \<and> length g \<le> Suc n \<and> s = g @ js ''>''"
      then have "length g = Suc n" using len length_gt by simp
      then have "take (Suc n) s = g" using a by simp
      then show "dot_plus_backtrack (Suc n) s = Some g" using bt by simp
    qed
  next
    case False
    have bt: "dot_plus_backtrack (Suc n) s = dot_plus_backtrack n s"
      using False by (simp add: gt_test)
    have "\<not> (length g = Suc n \<and> s = g @ js ''>'')" using False by auto
    then show ?thesis unfolding bt Suc.IH by (auto simp: le_Suc_eq)
  qed
qed

lemma takeWhile_length_ge:
  "n \<le> length (takeWhile P xs) \<longleftrightarrow> n \<le> length xs \<and> (\<forall>x \<in> set (take n xs). P x)"
proof (induction xs arbitrary: n)
  case Nil show ?case by simp
next
  case (Cons x xs)
  show ?case by (cases n) (auto simp: Cons.IH)
qed

lemma match_at_iff:
  "match_at s = Some m \<longleftrightarrow>
     (\<exists>g. m = [createDesktopStashMessage g, g] \<and> s = createDesktopStashMessage g \<and> g \<noteq> [] \<and> noLineTerminator g)"
proof -
  let ?M = "DesktopStashEntryMarker @ js ''<''"
  show ?thesis
  proof (cases "match_literal ?M s")
    case None
    then have "\<And>g. s \<noteq> createDesktopStashMessage g"
      using match_literal_iff [of ?M s] by (auto simp: createDesktopStashMessage_def)
    with None show ?thesis by (auto simp: match_at_def)
  next
    case (Some rest)
    then have s: "s = ?M @ rest" by (simp add: match_literal_iff)
    have key: "\<And>g. (length g \<le> length (takeWhile (\<lambda>c. \<not> isLineTerminator c) rest) \<and> rest = g @ js ''>'')
        \<longleftrightarrow> (rest = g @ js ''>'' \<and> noLineTerminator g)"
      by (auto simp: takeWhile_length_ge noLineTerminator_def list_all_iff)
    have m: "match_at s = (case dot_plus_backtrack (length (takeWhile (\<lambda>c. \<not> isLineTerminator c) rest)) rest of
             None \<Rightarrow> None
           | Some g \<Rightarrow> Some [createDesktopStashMessage g, g])"
      using Some by (simp add: match_at_def createDesktopStashMessage_def split: option.splits)
    have c: "\<And>g. s = createDesktopStashMessage g \<longleftrightarrow> rest = g @ js ''>''"
      by (simp add: s createDesktopStashMessage_def)
    show ?thesis
    proof
      assume "match_at s = Some m"
      then obtain g where g: "dot_plus_backtrack (length (takeWhile (\<lambda>c. \<not> isLineTerminator c) rest)) rest = Some g"
        and mm: "m = [createDesktopStashMessage g, g]"
        unfolding m by (auto split: option.splits)
      from g have "g \<noteq> []" "rest = g @ js ''>''" "noLineTerminator g"
        using key [of g] by (simp_all add: backtrack_iff)
      then show "\<exists>g. m = [createDesktopStashMessage g, g] \<and> s = createDesktopStashMessage g \<and> g \<noteq> [] \<and> noLineTerminator g"
        using mm c by blast
    next
      assume "\<exists>g. m = [createDesktopStashMessage g, g] \<and> s = createDesktopStashMessage g \<and> g \<noteq> [] \<and> noLineTerminator g"
      then obtain g where mm: "m = [createDesktopStashMessage g, g]" and sg: "s = createDesktopStashMessage g"
        and ne: "g \<noteq> []" and nl: "noLineTerminator g" by blast
      from sg have r: "rest = g @ js ''>''" using c by simp
      have "dot_plus_backtrack (length (takeWhile (\<lambda>c. \<not> isLineTerminator c) rest)) rest = Some g"
        unfolding backtrack_iff using key [of g] r ne nl by blast
      then show "match_at s = Some m" unfolding m using mm by simp
    qed
  qed
qed

lemma exec_skip:
  "(\<And>p2. p2 \<noteq> [] \<Longrightarrow> suffix p2 p \<Longrightarrow> match_at (p2 @ t) = None) \<Longrightarrow>
   desktopStashEntryMessageRe_exec (p @ t) = desktopStashEntryMessageRe_exec t"
proof (induction p)
  case Nil show ?case by simp
next
  case (Cons c p)
  have "match_at ((c # p) @ t) = None" using Cons.prems [of "c # p"] by simp
  moreover have "desktopStashEntryMessageRe_exec (p @ t) = desktopStashEntryMessageRe_exec t"
    using Cons.prems by (intro Cons.IH) (auto simp: suffix_Cons)
  ultimately show ?case by simp
qed

lemma exec_at_match:
  "match_at t = Some m \<Longrightarrow> desktopStashEntryMessageRe_exec t = Some m"
  by (cases t) auto

lemma exec_Some_iff:
  "desktopStashEntryMessageRe_exec s = Some m \<longleftrightarrow>
     (\<exists>p t. s = p @ t \<and> match_at t = Some m \<and>
            (\<forall>p2. p2 \<noteq> [] \<and> suffix p2 p \<longrightarrow> match_at (p2 @ t) = None))"
proof (induction s)
  case Nil
  show ?case by auto
next
  case (Cons c cs)
  show ?case
  proof (cases "match_at (c # cs)")
    case (Some m')
    show ?thesis
    proof
      assume "desktopStashEntryMessageRe_exec (c # cs) = Some m"
      then have "match_at (c # cs) = Some m" using Some by simp
      then have "c # cs = [] @ (c # cs) \<and> match_at (c # cs) = Some m \<and>
            (\<forall>p2. p2 \<noteq> [] \<and> suffix p2 [] \<longrightarrow> match_at (p2 @ (c # cs)) = None)" by simp
      then show "\<exists>p t. c # cs = p @ t \<and> match_at t = Some m \<and>
            (\<forall>p2. p2 \<noteq> [] \<and> suffix p2 p \<longrightarrow> match_at (p2 @ t) = None)" by blast
    next
      assume "\<exists>p t. c # cs = p @ t \<and> match_at t = Some m \<and>
            (\<forall>p2. p2 \<noteq> [] \<and> suffix p2 p \<longrightarrow> match_at (p2 @ t) = None)"
      then obtain p t where pt: "c # cs = p @ t" and mt: "match_at t = Some m"
        and no: "\<forall>p2. p2 \<noteq> [] \<and> suffix p2 p \<longrightarrow> match_at (p2 @ t) = None" by blast
      have "p = []"
      proof (rule ccontr)
        assume "p \<noteq> []"
        then have "match_at (p @ t) = None" using no by simp
        then show False using pt Some by simp
      qed
      then have "t = c # cs" using pt by simp
      then show "desktopStashEntryMessageRe_exec (c # cs) = Some m" using mt by (metis exec_at_match)
    qed
  next
    case None
    then have e: "desktopStashEntryMessageRe_exec (c # cs) = desktopStashEntryMessageRe_exec cs" by simp
    show ?thesis unfolding e Cons.IH
    proof
      assume "\<exists>p t. cs = p @ t \<and> match_at t = Some m \<and>
            (\<forall>p2. p2 \<noteq> [] \<and> suffix p2 p \<longrightarrow> match_at (p2 @ t) = None)"
      then obtain p t where pt: "cs = p @ t" and mt: "match_at t = Some m"
        and no: "\<forall>p2. p2 \<noteq> [] \<and> suffix p2 p \<longrightarrow> match_at (p2 @ t) = None" by blast
      have "\<forall>p2. p2 \<noteq> [] \<and> suffix p2 (c # p) \<longrightarrow> match_at (p2 @ t) = None"
        using no None pt by (auto simp: suffix_Cons)
      then have "c # cs = (c # p) @ t \<and> match_at t = Some m \<and>
            (\<forall>p2. p2 \<noteq> [] \<and> suffix p2 (c # p) \<longrightarrow> match_at (p2 @ t) = None)"
        using pt mt by simp
      then show "\<exists>p t. c # cs = p @ t \<and> match_at t = Some m \<and>
            (\<forall>p2. p2 \<noteq> [] \<and> suffix p2 p \<longrightarrow> match_at (p2 @ t) = None)" by blast
    next
      assume "\<exists>p t. c # cs = p @ t \<and> match_at t = Some m \<and>
            (\<forall>p2. p2 \<noteq> [] \<and> suffix p2 p \<longrightarrow> match_at (p2 @ t) = None)"
      then obtain p t where pt: "c # cs = p @ t" and mt: "match_at t = Some m"
        and no: "\<forall>p2. p2 \<noteq> [] \<and> suffix p2 p \<longrightarrow> match_at (p2 @ t) = None" by blast
      have "p \<noteq> []" using pt mt None by auto
      then obtain p' where p': "p = c # p'" using pt by (cases p) auto
      have "\<forall>p2. p2 \<noteq> [] \<and> suffix p2 p' \<longrightarrow> match_at (p2 @ t) = None"
        using no p' by (auto simp: suffix_Cons)
      then have "cs = p' @ t \<and> match_at t = Some m \<and>
            (\<forall>p2. p2 \<noteq> [] \<and> suffix p2 p' \<longrightarrow> match_at (p2 @ t) = None)"
        using pt p' mt by simp
      then show "\<exists>p t. cs = p @ t \<and> match_at t = Some m \<and>
            (\<forall>p2. p2 \<noteq> [] \<and> suffix p2 p \<longrightarrow> match_at (p2 @ t) = None)" by blast
    qed
  qed
qed

lemma exec_None_iff:
  "desktopStashEntryMessageRe_exec s = None \<longleftrightarrow> (\<forall>t. suffix t s \<longrightarrow> match_at t = None)"
proof (induction s)
  case Nil show ?case by simp
next
  case (Cons c cs)
  show ?case by (cases "match_at (c # cs)") (auto simp: Cons.IH suffix_Cons)
qed

lemma sublist_split_at:
  "c \<notin> set m \<Longrightarrow> sublist m (a @ c # b) \<Longrightarrow> sublist m a \<or> sublist m b"
proof (induction a)
  case Nil
  then show ?case by (cases m) (auto simp: sublist_Cons_right)
next
  case (Cons x a)
  from Cons.prems(2) have "prefix m ((x # a) @ c # b) \<or> sublist m (a @ c # b)"
    by (simp add: sublist_Cons_right)
  then show ?case
  proof
    assume "prefix m ((x # a) @ c # b)"
    then have "prefix m (x # a) \<or> (\<exists>us. m = (x # a) @ us \<and> prefix us (c # b))"
      unfolding prefix_append by simp
    then show ?thesis
    proof
      assume "prefix m (x # a)" then show ?thesis by (auto intro: prefix_imp_sublist)
    next
      assume "\<exists>us. m = (x # a) @ us \<and> prefix us (c # b)"
      then obtain us where m: "m = (x # a) @ us" and us: "prefix us (c # b)" by blast
      have "us = []" using us Cons.prems(1) m by (cases us) auto
      then show ?thesis using m by auto
    qed
  next
    assume "sublist m (a @ c # b)"
    then have "sublist m a \<or> sublist m b" using Cons.IH Cons.prems(1) by blast
    then show ?thesis by (auto simp: sublist_Cons_right)
  qed
qed

lemma markerOpen_last: "0x3C \<notin> set DesktopStashEntryMarker" "js ''<'' = [0x3C]"
  by (simp_all add: DesktopStashEntryMarker_def js_def)

lemma no_straddle:
  assumes p2: "p2 \<noteq> []" and pre: "prefix markerOpen (p2 @ markerOpen @ r)"
  shows "prefix markerOpen p2"
proof -
  from pre have "prefix markerOpen p2 \<or> (\<exists>us. markerOpen = p2 @ us \<and> prefix us (markerOpen @ r))"
    unfolding prefix_append by simp
  then show ?thesis
  proof
    assume "\<exists>us. markerOpen = p2 @ us \<and> prefix us (markerOpen @ r)"
    then obtain us where m: "markerOpen = p2 @ us" and us: "prefix us (markerOpen @ r)" by blast
    show ?thesis
    proof (cases "us = []")
      case True then show ?thesis using m by simp
    next
      case False
      have "length us < length markerOpen" using m p2 by (metis length_append length_greater_0_conv less_add_same_cancel2)
      then have "length us \<le> length DesktopStashEntryMarker"
        by (simp add: markerOpen_def markerOpen_last)
      moreover have "us = take (length us) (DesktopStashEntryMarker @ (js ''<'' @ r))"
        using us by (metis append_eq_conv_conj prefixE markerOpen_def append.assoc)
      ultimately have "us = take (length us) DesktopStashEntryMarker" by simp
      then have sub: "set us \<subseteq> set DesktopStashEntryMarker" by (metis set_take_subset)
      have "last (p2 @ us) = last (DesktopStashEntryMarker @ [0x3C])"
        using m by (simp add: markerOpen_def markerOpen_last(2))
      then have "last us = 0x3C" using False by simp
      moreover have "last us \<in> set us" using False by simp
      ultimately have "0x3C \<in> set DesktopStashEntryMarker" using sub by auto
      then show ?thesis using markerOpen_last(1) by simp
    qed
  qed
qed

lemma match_at_markerOpen: "match_at s = Some m \<Longrightarrow> prefix markerOpen s"
  by (auto simp: match_at_iff createDesktopStashMessage_def markerOpen_def)

lemma exec_after_foreign_prefix:
  assumes "\<not> sublist markerOpen p"
  shows "desktopStashEntryMessageRe_exec (p @ createDesktopStashMessage b)
       = desktopStashEntryMessageRe_exec (createDesktopStashMessage b)"
proof (rule exec_skip)
  fix p2 :: js_string assume ne: "p2 \<noteq> []" and suf: "suffix p2 p"
  show "match_at (p2 @ createDesktopStashMessage b) = None"
  proof (rule ccontr)
    assume "match_at (p2 @ createDesktopStashMessage b) \<noteq> None"
    then have "prefix markerOpen (p2 @ markerOpen @ (b @ js ''>''))"
      using match_at_markerOpen by (auto simp: createDesktopStashMessage_def markerOpen_def)
    then have "prefix markerOpen p2" using ne no_straddle by blast
    then have "sublist markerOpen p" using suf
      by (meson prefix_imp_sublist sublist_order.order_trans suffix_imp_sublist)
    then show False using assms by simp
  qed
qed

lemma extract_create:
  assumes "b \<noteq> []" "noLineTerminator b"
  shows "extractBranchFromMessage (createDesktopStashMessage b) = Some b"
proof -
  have "match_at (createDesktopStashMessage b) = Some [createDesktopStashMessage b, b]"
    unfolding match_at_iff using assms by blast
  then have "desktopStashEntryMessageRe_exec (createDesktopStashMessage b) = Some [createDesktopStashMessage b, b]"
    by (rule exec_at_match)
  then show ?thesis using assms(1) by (simp add: extractBranchFromMessage_def)
qed

lemma sublist_On_prefix:
  assumes "sublist markerOpen (js ''On '' @ x @ js '': '')"
  shows "sublist markerOpen x"
proof -
  have sp: "0x20 \<notin> set markerOpen" and co: "0x3A \<notin> set markerOpen" and len: "length markerOpen = 17"
    by (simp_all add: markerOpen_def DesktopStashEntryMarker_def js_def)
  have e: "js ''On '' @ x @ js '': '' = [0x4F, 0x6E] @ 0x20 # (x @ 0x3A # [0x20])"
    by (simp add: js_def)
  have "sublist markerOpen [0x4F, 0x6E] \<or> sublist markerOpen (x @ 0x3A # [0x20])"
    using assms sp unfolding e by (rule sublist_split_at [rotated])
  moreover have "\<not> sublist markerOpen [0x4F, 0x6E]" using len sublist_length_le by fastforce
  ultimately have "sublist markerOpen (x @ 0x3A # [0x20])" by simp
  then have "sublist markerOpen x \<or> sublist markerOpen [0x20]"
    using co by (rule sublist_split_at [rotated])
  moreover have "\<not> sublist markerOpen [0x20]" using len sublist_length_le by fastforce
  ultimately show ?thesis by simp
qed

lemma extract_None_iff:
  "extractBranchFromMessage m = None \<longleftrightarrow>
     \<not> (\<exists>p b. m = p @ createDesktopStashMessage b \<and> b \<noteq> [] \<and> noLineTerminator b)"
proof -
  have "extractBranchFromMessage m = None \<longleftrightarrow> desktopStashEntryMessageRe_exec m = None"
  proof
    assume a: "extractBranchFromMessage m = None"
    show "desktopStashEntryMessageRe_exec m = None"
    proof (rule ccontr)
      assume "desktopStashEntryMessageRe_exec m \<noteq> None"
      then obtain mm where mm: "desktopStashEntryMessageRe_exec m = Some mm" by blast
      then obtain g where "mm = [createDesktopStashMessage g, g]" "g \<noteq> []"
        unfolding exec_Some_iff match_at_iff by blast
      then show False using a mm by (simp add: extractBranchFromMessage_def)
    qed
  qed (simp add: extractBranchFromMessage_def)
  also have "\<dots> \<longleftrightarrow> \<not> (\<exists>p b. m = p @ createDesktopStashMessage b \<and> b \<noteq> [] \<and> noLineTerminator b)"
    unfolding exec_None_iff
  proof
    assume a: "\<forall>t. suffix t m \<longrightarrow> match_at t = None"
    show "\<not> (\<exists>p b. m = p @ createDesktopStashMessage b \<and> b \<noteq> [] \<and> noLineTerminator b)"
    proof
      assume "\<exists>p b. m = p @ createDesktopStashMessage b \<and> b \<noteq> [] \<and> noLineTerminator b"
      then obtain p b where m: "m = p @ createDesktopStashMessage b" and b: "b \<noteq> []" "noLineTerminator b" by blast
      have "match_at (createDesktopStashMessage b) = Some [createDesktopStashMessage b, b]"
        unfolding match_at_iff using b by blast
      moreover have "suffix (createDesktopStashMessage b) m" using m by (simp add: suffix_def)
      ultimately show False using a by fastforce
    qed
  next
    assume a: "\<not> (\<exists>p b. m = p @ createDesktopStashMessage b \<and> b \<noteq> [] \<and> noLineTerminator b)"
    show "\<forall>t. suffix t m \<longrightarrow> match_at t = None"
    proof (intro allI impI)
      fix t assume "suffix t m"
      then obtain p where m: "m = p @ t" by (auto simp: suffix_def)
      show "match_at t = None"
      proof (rule ccontr)
        assume "match_at t \<noteq> None"
        then obtain mm where "match_at t = Some mm" by blast
        then obtain g where "t = createDesktopStashMessage g" "g \<noteq> []" "noLineTerminator g"
          unfolding match_at_iff by blast
        then show False using a m by blast
      qed
    qed
  qed
  finally show ?thesis .
qed


lemma extract_Some_sound:
  assumes "extractBranchFromMessage m = Some g"
  shows "g \<noteq> [] \<and> noLineTerminator g \<and> (\<exists>p. m = p @ createDesktopStashMessage g)"
proof -
  from assms obtain mm where mm: "desktopStashEntryMessageRe_exec m = Some mm"
    by (auto simp: extractBranchFromMessage_def split: option.splits)
  then obtain p t where m: "m = p @ t" and t: "match_at t = Some mm"
    unfolding exec_Some_iff by blast
  from t obtain g' where g': "mm = [createDesktopStashMessage g', g']"
    "t = createDesktopStashMessage g'" "g' \<noteq> []" "noLineTerminator g'"
    unfolding match_at_iff by blast
  have "g = g'" using assms mm g' by (simp add: extractBranchFromMessage_def)
  then show ?thesis using g' m by blast
qed


section \<open>Claims about the classifier\<close>

text \<open>
  C1, as the code has it. The pattern is not anchored at its start and \<^verbatim>\<open>.\<close> does not match
  a line terminator, so:
  \<^item> for a message \<^verbatim>\<open>!!GitHub_Desktop<B>\<close> with \<open>B\<close> non-empty and free of line terminators
    the classifier returns exactly \<open>B\<close>;
  \<^item> for a message \<^verbatim>\<open>On X: !!GitHub_Desktop<B>\<close> with such a \<open>B\<close> it returns exactly \<open>B\<close> when
    \<open>X\<close> does not itself contain \<^verbatim>\<open>!!GitHub_Desktop<\<close>;
  \<^item> it returns null exactly for the messages that do not end in \<^verbatim>\<open>!!GitHub_Desktop<B>\<close>
    for any non-empty \<open>B\<close> free of line terminators, whatever stands before the marker;
  \<^item> what it returns is never empty, is free of line terminators and is the payload of
    a marker the message ends in.
\<close>

theorem extractBranchFromMessage_classifies:
  "(b \<noteq> [] \<and> noLineTerminator b \<longrightarrow>
      extractBranchFromMessage (createDesktopStashMessage b) = Some b) \<and>
   (b \<noteq> [] \<and> noLineTerminator b \<and> \<not> sublist markerOpen x \<longrightarrow>
      extractBranchFromMessage (js ''On '' @ x @ js '': '' @ createDesktopStashMessage b) = Some b) \<and>
   (extractBranchFromMessage m = None \<longleftrightarrow>
      \<not> (\<exists>p g. m = p @ createDesktopStashMessage g \<and> g \<noteq> [] \<and> noLineTerminator g)) \<and>
   (\<forall>g. extractBranchFromMessage m = Some g \<longrightarrow>
      g \<noteq> [] \<and> noLineTerminator g \<and> (\<exists>p. m = p @ createDesktopStashMessage g))"
proof -
  have c1: "b \<noteq> [] \<and> noLineTerminator b \<longrightarrow>
      extractBranchFromMessage (createDesktopStashMessage b) = Some b"
    by (simp add: extract_create)
  have c2: "b \<noteq> [] \<and> noLineTerminator b \<and> \<not> sublist markerOpen x \<longrightarrow>
      extractBranchFromMessage (js ''On '' @ x @ js '': '' @ createDesktopStashMessage b) = Some b"
  proof
    assume a: "b \<noteq> [] \<and> noLineTerminator b \<and> \<not> sublist markerOpen x"
    then have "\<not> sublist markerOpen (js ''On '' @ x @ js '': '')"
      using sublist_On_prefix by blast
    then have "desktopStashEntryMessageRe_exec
          ((js ''On '' @ x @ js '': '') @ createDesktopStashMessage b)
        = desktopStashEntryMessageRe_exec (createDesktopStashMessage b)"
      by (rule exec_after_foreign_prefix)
    then have "extractBranchFromMessage (js ''On '' @ x @ js '': '' @ createDesktopStashMessage b)
        = extractBranchFromMessage (createDesktopStashMessage b)"
      by (simp add: extractBranchFromMessage_def)
    then show "extractBranchFromMessage (js ''On '' @ x @ js '': '' @ createDesktopStashMessage b)
        = Some b"
      using a by (simp add: extract_create)
  qed
  have c3: "extractBranchFromMessage m = None \<longleftrightarrow>
      \<not> (\<exists>p g. m = p @ createDesktopStashMessage g \<and> g \<noteq> [] \<and> noLineTerminator g)"
    by (rule extract_None_iff)
  have c4: "\<forall>g. extractBranchFromMessage m = Some g \<longrightarrow>
      g \<noteq> [] \<and> noLineTerminator g \<and> (\<exists>p. m = p @ createDesktopStashMessage g)"
    using extract_Some_sound by blast
  show ?thesis using c1 c2 c3 c4 by blast
qed

text \<open>
  C1 at concrete messages: the branch \<^verbatim>\<open>main\<close> alone and after \<^verbatim>\<open>On main: \<close>, and a
  message of another tool.
\<close>

theorem extractBranchFromMessage_classifies_witness:
  "extractBranchFromMessage (createDesktopStashMessage (js ''main'')) = Some (js ''main'') \<and>
   extractBranchFromMessage (js ''On '' @ js ''main'' @ js '': '' @
      createDesktopStashMessage (js ''main'')) = Some (js ''main'') \<and>
   \<not> (\<exists>p g. js ''WIP on main: 1a2b3c fix'' = p @ createDesktopStashMessage g \<and> g \<noteq> [] \<and>
         noLineTerminator g)"
proof -
  have b: "js ''main'' \<noteq> [] \<and> noLineTerminator (js ''main'')"
    by (simp add: js_def noLineTerminator_def isLineTerminator_def)
  have x: "\<not> sublist markerOpen (js ''main'')"
    by (simp add: js_def markerOpen_def DesktopStashEntryMarker_def sublist_code)
  have m: "extractBranchFromMessage (js ''WIP on main: 1a2b3c fix'') = None"
    by (simp add: extractBranchFromMessage_def match_at_def js_def DesktopStashEntryMarker_def)
  show ?thesis
    using extractBranchFromMessage_classifies
      [of "js ''main''" "js ''main''" "js ''WIP on main: 1a2b3c fix''"] b x m
    by blast
qed

text \<open>
  C1 as stated fails in three ways: a payload with a line terminator is not returned, a
  marker inside \<open>X\<close> changes the payload that is returned, and a message of neither grammar
  that only ends in the marker is classified as owned.
\<close>

theorem extractBranchFromMessage_grammar_counterexample:
  "extractBranchFromMessage (createDesktopStashMessage [0x61, 0x0A, 0x62]) = None \<and>
   extractBranchFromMessage (js ''On '' @ js ''!!GitHub_Desktop<z'' @ js '': '' @
      createDesktopStashMessage (js ''b'')) = Some (js ''z: !!GitHub_Desktop<b'') \<and>
   (extractBranchFromMessage (js ''x!!GitHub_Desktop<b>'') = Some (js ''b'') \<and>
    (\<forall>B. js ''x!!GitHub_Desktop<b>'' \<noteq> createDesktopStashMessage B) \<and>
    (\<forall>X B. js ''x!!GitHub_Desktop<b>'' \<noteq> js ''On '' @ X @ js '': '' @ createDesktopStashMessage B))"
proof (intro conjI)
  show "extractBranchFromMessage (createDesktopStashMessage [0x61, 0x0A, 0x62]) = None"
    by (simp add: extractBranchFromMessage_def createDesktopStashMessage_def match_at_def js_def
          DesktopStashEntryMarker_def isLineTerminator_def)
  show "extractBranchFromMessage (js ''On '' @ js ''!!GitHub_Desktop<z'' @ js '': '' @
      createDesktopStashMessage (js ''b'')) = Some (js ''z: !!GitHub_Desktop<b'')"
    by (simp add: extractBranchFromMessage_def createDesktopStashMessage_def match_at_def js_def
          DesktopStashEntryMarker_def isLineTerminator_def)
  show "extractBranchFromMessage (js ''x!!GitHub_Desktop<b>'') = Some (js ''b'')"
    by (simp add: extractBranchFromMessage_def match_at_def js_def
          DesktopStashEntryMarker_def isLineTerminator_def)
  show "\<forall>B. js ''x!!GitHub_Desktop<b>'' \<noteq> createDesktopStashMessage B"
    by (simp add: createDesktopStashMessage_def js_def DesktopStashEntryMarker_def)
  show "\<forall>X B. js ''x!!GitHub_Desktop<b>'' \<noteq> js ''On '' @ X @ js '': '' @ createDesktopStashMessage B"
    by (simp add: js_def)
qed

text \<open>
  C9, as the code has it: for every branch name that is non-empty and has no line
  terminator (LF, CR, U+2028, U+2029) the classifier gives back the branch name of
  \<^verbatim>\<open>createDesktopStashMessage\<close>; brackets in the name do not matter.
\<close>

theorem createDesktopStashMessage_roundtrip:
  assumes "b \<noteq> []" and "noLineTerminator b"
  shows "extractBranchFromMessage (createDesktopStashMessage b) = Some b"
proof -
  have "match_at (createDesktopStashMessage b) = Some [createDesktopStashMessage b, b]"
    unfolding match_at_iff using assms by blast
  then have "desktopStashEntryMessageRe_exec (createDesktopStashMessage b)
      = Some [createDesktopStashMessage b, b]"
    by (rule exec_at_match)
  then show ?thesis using assms(1) by (simp add: extractBranchFromMessage_def)
qed

text \<open>For no other branch name does the classifier give the name back.\<close>

lemma roundtrip_only_if:
  "extractBranchFromMessage (createDesktopStashMessage b) = Some b \<Longrightarrow>
     b \<noteq> [] \<and> noLineTerminator b"
  using extract_Some_sound [of "createDesktopStashMessage b" b] by blast

text \<open>C9 at a branch name with brackets in it.\<close>

theorem createDesktopStashMessage_roundtrip_witness:
  "js ''a<b>c'' \<noteq> [] \<and> noLineTerminator (js ''a<b>c'') \<and>
   extractBranchFromMessage (createDesktopStashMessage (js ''a<b>c'')) = Some (js ''a<b>c'')"
proof -
  have "js ''a<b>c'' \<noteq> [] \<and> noLineTerminator (js ''a<b>c'')"
    by (simp add: js_def noLineTerminator_def isLineTerminator_def)
  then show ?thesis using createDesktopStashMessage_roundtrip [of "js ''a<b>c''"] by simp
qed

text \<open>
  C9 as stated fails for a carriage return: the name \<^verbatim>\<open>a\rb\<close> is non-empty and has no
  newline character, and the classifier returns null for its message.
\<close>

theorem createDesktopStashMessage_roundtrip_counterexample:
  "[0x61, 0x0D, 0x62] \<noteq> ([] :: js_string) \<and> (0x0A :: 16 word) \<notin> set [0x61, 0x0D, 0x62] \<and>
   extractBranchFromMessage (createDesktopStashMessage [0x61, 0x0D, 0x62]) = None"
  by (simp add: extractBranchFromMessage_def createDesktopStashMessage_def match_at_def js_def
        DesktopStashEntryMarker_def isLineTerminator_def)


section \<open>The error lines of stderr\<close>

lemma js_lines_Cons: "js_lines s = takeWhile (\<lambda>c. \<not> isLineTerminator c) s # tl (js_lines s)"
proof (induction s)
  case Nil show ?case by simp
next
  case (Cons c cs)
  show ?case
  proof (cases "isLineTerminator c")
    case True then show ?thesis by simp
  next
    case False
    then show ?thesis using Cons.IH by (cases "js_lines cs") auto
  qed
qed

lemma prefix_first_line:
  assumes "list_all (\<lambda>c. \<not> isLineTerminator c) p"
  shows "prefix p s \<longleftrightarrow> prefix p (takeWhile (\<lambda>c. \<not> isLineTerminator c) s)"
  using assms
proof (induction p arbitrary: s)
  case Nil show ?case by simp
next
  case (Cons a p)
  show ?case using Cons.prems Cons.IH by (cases s) auto
qed

lemma error_marker_one_line: "list_all (\<lambda>c. \<not> isLineTerminator c) (js ''error: '')"
  by (simp add: js_def isLineTerminator_def)

lemma errorPrefixRe_exec_from_lines:
  "errorPrefixRe_exec_from bol s \<noteq> None \<longleftrightarrow>
     (bol \<and> prefix (js ''error: '') (hd (js_lines s))) \<or>
     list_ex (prefix (js ''error: '')) (tl (js_lines s))"
proof (induction s arbitrary: bol)
  case Nil
  have "match_literal (js ''error: '') [] = None" "\<not> prefix (js ''error: '') []"
    by (simp_all add: js_def)
  then show ?case by simp
next
  case (Cons c cs)
  have hd: "prefix (js ''error: '') (hd (js_lines (c # cs))) \<longleftrightarrow> prefix (js ''error: '') (c # cs)"
    using js_lines_Cons [of "c # cs"] prefix_first_line [OF error_marker_one_line, of "c # cs"]
    by (metis list.sel(1))
  show ?case
  proof (cases "bol \<and> prefix (js ''error: '') (c # cs)")
    case True
    then have "match_literal (js ''error: '') (c # cs) \<noteq> None"
      using match_literal_prefix by blast
    then have "errorPrefixRe_exec_from bol (c # cs) \<noteq> None" using True by simp
    then show ?thesis using True hd by blast
  next
    case False
    then have "\<not> bol \<or> match_literal (js ''error: '') (c # cs) = None"
      using match_literal_prefix by blast
    then have e: "errorPrefixRe_exec_from bol (c # cs) = errorPrefixRe_exec_from (isLineTerminator c) cs"
      by auto
    have t: "list_ex (prefix (js ''error: '')) (tl (js_lines (c # cs))) \<longleftrightarrow>
          (isLineTerminator c \<and> prefix (js ''error: '') (hd (js_lines cs))) \<or>
          list_ex (prefix (js ''error: '')) (tl (js_lines cs))"
    proof (cases "isLineTerminator c")
      case True
      obtain h t where ht: "js_lines cs = h # t" using js_lines_Cons [of cs] by blast
      show ?thesis using True by (simp add: ht)
    next
      case False
      then show ?thesis by (cases "js_lines cs") auto
    qed
    show ?thesis unfolding e Cons.IH t using False hd by blast
  qed
qed

lemma errorPrefixRe_exec_lines: "errorPrefixRe_exec s \<noteq> None \<longleftrightarrow> has_error_line s"
proof -
  obtain h t where ht: "js_lines s = h # t" using js_lines_Cons [of s] by blast
  show ?thesis
    unfolding errorPrefixRe_exec_def has_error_line_def errorPrefixRe_exec_from_lines
    by (simp add: ht)
qed

lemma errorPrefixRe_exec_match:
  "errorPrefixRe_exec_from bol s = Some m \<Longrightarrow> length m > 0"
  by (induction s arbitrary: bol) (auto split: if_splits)

lemma error_check:
  "(case errorPrefixRe_exec err of
      None \<Rightarrow> a
    | Some matches \<Rightarrow> if length matches > 0 then b else a) =
   (if has_error_line err then b else a)"
proof (cases "errorPrefixRe_exec err")
  case None
  then show ?thesis using errorPrefixRe_exec_lines [of err] by simp
next
  case (Some m)
  then have "length m > 0" unfolding errorPrefixRe_exec_def by (rule errorPrefixRe_exec_match)
  then show ?thesis using Some errorPrefixRe_exec_lines [of err] by simp
qed


section \<open>Running the operations\<close>

lemma git_run:
  assumes "run E (world s) args p l = (result, w')"
  shows "git E args p l opts s =
    (if exitCode result \<in> (case successExitCodes opts of None \<Rightarrow> {0} | Some c \<Rightarrow> c)
        \<or> (case errorCategory E result of None \<Rightarrow> False
            | Some e \<Rightarrow> (case expectedErrors opts of None \<Rightarrow> False | Some x \<Rightarrow> e \<in> x))
     then Inr result else Inl (GitError result args),
     s\<lparr>world := w', invocations := invocations s @ [args]\<rparr>)"
  using assms by (simp add: git_def Let_def)

lemma git_run_no_expected:
  assumes "run E (world s) args p l = (result, w')" and "expectedErrors opts = None"
  shows "git E args p l opts s =
    (if exitCode result \<in> (case successExitCodes opts of None \<Rightarrow> {0} | Some c \<Rightarrow> c)
     then Inr result else Inl (GitError result args),
     s\<lparr>world := w', invocations := invocations s @ [args]\<rparr>)"
  using assms(2) by (simp add: git_run [OF assms(1)] split: option.splits)

lemma getStashes_run:
  assumes "run E (world s) (getStashes_args E) (path repository) (js ''getStashEntries'')
             = (result, w')"
  shows "getStashes E repository s =
    (if exitCode result = 128 then Inr \<lparr>desktopEntries = [], stashEntryCount = 0\<rparr>
     else if exitCode result = 0 then
       (case parse E (stdout result) of
          Inl e \<Rightarrow> Inl e
        | Inr entries \<Rightarrow> Inr \<lparr>desktopEntries = collectDesktopEntries entries [],
                            stashEntryCount = int (length entries) - 1\<rparr>)
     else Inl (GitError result (getStashes_args E)),
     s\<lparr>world := w', invocations := invocations s @ [getStashes_args E]\<rparr>)"
  by (simp add: getStashes_def await_def git_run_no_expected [OF assms] return_def throw_def
        split: sum.splits)

lemma getStashes_session:
  assumes "getStashes E repository s = (r, s')"
  shows "s' = s\<lparr>world := snd (run E (world s) (getStashes_args E) (path repository)
                                (js ''getStashEntries'')),
                 invocations := invocations s @ [getStashes_args E]\<rparr>"
proof -
  obtain result w' where rn:
    "run E (world s) (getStashes_args E) (path repository) (js ''getStashEntries'') = (result, w')"
    by (cases "run E (world s) (getStashes_args E) (path repository) (js ''getStashEntries'')")
  show ?thesis using assms unfolding getStashes_run [OF rn] rn by auto
qed

lemma getStashEntryMatchingSha_of:
  assumes "getStashes E repository s = (Inr stash, s')"
  shows "getStashEntryMatchingSha E repository sha s =
           (Inr (find (\<lambda>e. stashSha e = sha) (desktopEntries stash)), s')"
  using assms by (simp add: getStashEntryMatchingSha_def await_def return_def)

lemma drop_absent:
  assumes "getStashes E repository s = (Inr stash, s')"
    and "find (\<lambda>e. stashSha e = sha) (desktopEntries stash) = None"
  shows "dropDesktopStashEntry E repository sha s = (Inr (), s')"
  using assms(2)
  by (simp add: dropDesktopStashEntry_def await_def return_def
        getStashEntryMatchingSha_of [OF assms(1)])

lemma drop_found:
  assumes "getStashes E repository s = (Inr stash, s')"
    and "find (\<lambda>e. stashSha e = sha) (desktopEntries stash) = Some e"
    and "run E (world s') (dropDesktopStashEntry_args e) (path repository) (js ''dropStashEntry'')
           = (result, w')"
  shows "dropDesktopStashEntry E repository sha s =
           (if exitCode result = 0 then Inr ()
            else Inl (GitError result (dropDesktopStashEntry_args e)),
            s'\<lparr>world := w', invocations := invocations s' @ [dropDesktopStashEntry_args e]\<rparr>)"
  using assms(2)
  by (simp add: dropDesktopStashEntry_def await_def return_def no_options_def
        getStashEntryMatchingSha_of [OF assms(1)] git_run_no_expected [OF assms(3)])

lemma pop_absent:
  assumes "getStashes E repository s = (Inr stash, s')"
    and "find (\<lambda>e. stashSha e = sha) (desktopEntries stash) = None"
  shows "popStashEntry E repository sha s = (Inr (), s')"
  using assms(2)
  by (simp add: popStashEntry_def await_def return_def
        getStashEntryMatchingSha_of [OF assms(1)])

lemma pop_found:
  assumes "getStashes E repository s = (Inr stash, s1)"
    and "find (\<lambda>e. stashSha e = sha) (desktopEntries stash) = Some e"
    and "run E (world s1) (popStashEntry_args e) (path repository) (js ''popStashEntry'')
           = (result, w2)"
    and "exitCode result = 1"
  shows "popStashEntry E repository sha s =
           (if length (stderr result) > 0
            then (Inl (GitError result (popStashEntry_args e)),
                  s1\<lparr>world := w2, invocations := invocations s1 @ [popStashEntry_args e]\<rparr>)
            else dropDesktopStashEntry E repository sha
                  (s1\<lparr>world := w2, invocations := invocations s1 @ [popStashEntry_args e],
                      logged := logged s1 @ [PopExitCodeReported 1]\<rparr>))"
  using assms(2,4)
  by (simp add: popStashEntry_def await_def return_def throw_def log_info_def Let_def
        getStashEntryMatchingSha_of [OF assms(1)] git_run [OF assms(3)])

lemma createDesktopStashEntry_run:
  assumes st: "stageFiles E (world s) repository (map (\<lambda>x. withIncludeAll E x True) fs)
                 = (Inr (), w1)"
    and rn: "run E w1 (createDesktopStashEntry_args branch) (path repository)
               (js ''createStashEntry'') = (result, w2)"
  shows "createDesktopStashEntry E repository branch fs s =
    (let s2 = s\<lparr>world := w2,
                 invocations := invocations s @ [createDesktopStashEntry_args branch]\<rparr>
     in if exitCode result = 0 then (Inr (stdout result \<noteq> no_local_changes), s2)
        else if exitCode result = 1 then
          (if has_error_line (stderr result)
           then (Inl (GitError result (createDesktopStashEntry_args branch)), s2)
           else (Inr (stdout result \<noteq> no_local_changes),
                 s2\<lparr>logged := logged s @ [CreateExitCodeReported 1 (stderr result)]\<rparr>))
        else (Inl (GitError result (createDesktopStashEntry_args branch)), s2))"
proof -
  let ?s1 = "s\<lparr>world := w1\<rparr>"
  have stg: "stage E repository (map (\<lambda>x. withIncludeAll E x True) fs) s = (Inr (), ?s1)"
    using st by (simp add: stage_def)
  have rn': "run E (world ?s1) (createDesktopStashEntry_args branch) (path repository)
               (js ''createStashEntry'') = (result, w2)"
    using rn by simp
  show ?thesis
    unfolding createDesktopStashEntry_def Let_def error_check
    by (simp add: await_def stg git_run_no_expected [OF rn'] return_def throw_def log_info_def)
qed

lemma moveStashEntry_run:
  assumes r1: "run E (world s) (commit_tree_args entry branch) (path repository)
                 (js ''moveStashEntryToBranch'') = (created, w1)"
    and ok: "exitCode created = 0"
    and r2: "run E w1 (stash_store_args branch (stdout created)) (path repository)
                 (js ''moveStashEntryToBranch'') = (stored, w2)"
  shows "moveStashEntry E repository entry branch s =
     (let s2 = s\<lparr>world := w2,
                  invocations := invocations s @
                    [commit_tree_args entry branch, stash_store_args branch (stdout created)]\<rparr>
      in if exitCode stored = 0 then dropDesktopStashEntry E repository (stashSha entry) s2
         else (Inl (GitError stored (stash_store_args branch (stdout created))), s2))"
proof -
  let ?s1 = "s\<lparr>world := w1, invocations := invocations s @ [commit_tree_args entry branch]\<rparr>"
  have g1: "git E (commit_tree_args entry branch) (path repository)
              (js ''moveStashEntryToBranch'') no_options s = (Inr created, ?s1)"
    using ok by (simp add: git_run_no_expected [OF r1] no_options_def)
  have r2': "run E (world ?s1) (stash_store_args branch (stdout created)) (path repository)
                 (js ''moveStashEntryToBranch'') = (stored, w2)"
    using r2 by simp
  have g2: "git E (stash_store_args branch (stdout created)) (path repository)
              (js ''moveStashEntryToBranch'') no_options ?s1
          = (if exitCode stored = 0 then Inr stored
             else Inl (GitError stored (stash_store_args branch (stdout created))),
             s\<lparr>world := w2,
                  invocations := invocations s @
                    [commit_tree_args entry branch, stash_store_args branch (stdout created)]\<rparr>)"
    by (simp add: git_run_no_expected [OF r2'] no_options_def)
  show ?thesis
    unfolding moveStashEntry_def by (simp add: await_def g1 g2 Let_def)
qed

lemma drop_query_fails:
  assumes "getStashes E repository s = (Inl e, s')"
  shows "dropDesktopStashEntry E repository sha s = (Inl e, s')"
  using assms
  by (simp add: dropDesktopStashEntry_def getStashEntryMatchingSha_def await_def)

lemma find_first:
  "find P xs = Some x \<longleftrightarrow>
     (\<exists>i < length xs. xs ! i = x \<and> P x \<and> (\<forall>j < i. \<not> P (xs ! j)))"
  by (auto simp: find_Some_iff)


section \<open>The scripted repository at work\<close>

lemma demo_run: "run demo_env (r # rs) args p l = (r, rs)"
  by (simp add: demo_env_def scripted_run_def)

lemma demo_collect: "collectDesktopEntries demo_entries [] = demo_owned"
  by (simp add: demo_entries_def demo_owned_def extractBranchFromMessage_def match_at_def js_def
        DesktopStashEntryMarker_def isLineTerminator_def)

lemma demo_parse_3: "parse demo_env (js ''3'') = Inr demo_entries"
  by (simp add: demo_env_def demo_parse_def)

lemma demo_parse_empty: "parse demo_env [] = Inr []"
  by (simp add: demo_env_def demo_parse_def js_def)

lemma demo_getStashes:
  assumes "world s = answer 0 (js ''3'') [] # rs"
  shows "getStashes demo_env repository s =
           (Inr \<lparr>desktopEntries = demo_owned, stashEntryCount = 3\<rparr>,
            s\<lparr>world := rs, invocations := invocations s @ [getStashes_args demo_env]\<rparr>)"
proof -
  have rn: "run demo_env (world s) (getStashes_args demo_env) (path repository)
          (js ''getStashEntries'') = (answer 0 (js ''3'') [], rs)"
    unfolding assms by (rule demo_run)
  have len: "length demo_entries = 4" by (simp add: demo_entries_def)
  have out: "exitCode (answer 0 (js ''3'') []) = 0" "stdout (answer 0 (js ''3'') []) = js ''3''"
    by (simp_all add: answer_def)
  show ?thesis
    unfolding getStashes_run [OF rn] out by (simp add: demo_parse_3 demo_collect len)
qed

lemma demo_stage: "stageFiles demo_env w repository fs = (Inr (), w)"
  by (simp add: demo_env_def)

lemma demo_find_s0: "find (\<lambda>e. stashSha e = js ''s0'') demo_owned = Some (demo_owned ! 0)"
  by (simp add: demo_owned_def)

lemma demo_find_zz: "\<forall>e \<in> set demo_owned. stashSha e \<noteq> js ''zz''"
  by (simp add: demo_owned_def js_def)


section \<open>Claims about the catalog\<close>

text \<open>
  C4: when the list query \<^verbatim>\<open>git log -g ... refs/stash\<close> reports exit code 128,
  \<^verbatim>\<open>getStashes\<close> returns \<^verbatim>\<open>{desktopEntries: [], stashEntryCount: 0}\<close> without raising; for
  every other non-zero exit code it raises the \<^verbatim>\<open>GitError\<close> of the query. In both cases the
  query is the one command that has run.
\<close>

theorem getStashes_exit_codes:
  assumes "run E (world s) (getStashes_args E) (path repository) (js ''getStashEntries'')
             = (result, w')"
  shows "(exitCode result = 128 \<longrightarrow>
            getStashes E repository s =
              (Inr \<lparr>desktopEntries = [], stashEntryCount = 0\<rparr>,
               s\<lparr>world := w', invocations := invocations s @ [getStashes_args E]\<rparr>)) \<and>
         (exitCode result \<noteq> 0 \<and> exitCode result \<noteq> 128 \<longrightarrow>
            getStashes E repository s =
              (Inl (GitError result (getStashes_args E)),
               s\<lparr>world := w', invocations := invocations s @ [getStashes_args E]\<rparr>))"
proof (intro conjI impI)
  assume "exitCode result = 128"
  then show "getStashes E repository s =
      (Inr \<lparr>desktopEntries = [], stashEntryCount = 0\<rparr>,
       s\<lparr>world := w', invocations := invocations s @ [getStashes_args E]\<rparr>)"
    unfolding getStashes_run [OF assms] by simp
next
  assume "exitCode result \<noteq> 0 \<and> exitCode result \<noteq> 128"
  then show "getStashes E repository s =
      (Inl (GitError result (getStashes_args E)),
       s\<lparr>world := w', invocations := invocations s @ [getStashes_args E]\<rparr>)"
    unfolding getStashes_run [OF assms] by simp
qed

text \<open>C4 in the scripted repository: a query that exits with 128, and one that exits with 1.\<close>

theorem getStashes_exit_codes_witness:
  "fst (getStashes demo_env demo_repository (script [answer 128 [] []]))
     = Inr \<lparr>desktopEntries = [], stashEntryCount = 0\<rparr> \<and>
   fst (getStashes demo_env demo_repository (script [answer 1 [] []]))
     = Inl (GitError (answer 1 [] []) (getStashes_args demo_env))"
proof -
  have r128: "run demo_env (world (script [answer 128 [] []])) (getStashes_args demo_env)
      (path demo_repository) (js ''getStashEntries'') = (answer 128 [] [], [])"
    by (simp add: script_def demo_run)
  have r1: "run demo_env (world (script [answer 1 [] []])) (getStashes_args demo_env)
      (path demo_repository) (js ''getStashEntries'') = (answer 1 [] [], [])"
    by (simp add: script_def demo_run)
  have c: "exitCode (answer 128 [] []) = 128" "exitCode (answer 1 [] []) \<noteq> 0"
    "exitCode (answer 1 [] []) \<noteq> 128"
    by (simp_all add: answer_def)
  show ?thesis
    using getStashes_exit_codes [OF r128] getStashes_exit_codes [OF r1] c by simp
qed

text \<open>
  C5: when the list query succeeds and its output parses into \<open>k\<close> real records and the
  trailing one, \<open>k + 1\<close> records in all, \<^verbatim>\<open>getStashes\<close> returns with \<^verbatim>\<open>stashEntryCount = k\<close>.
\<close>

theorem getStashes_count:
  assumes "run E (world s) (getStashes_args E) (path repository) (js ''getStashEntries'')
             = (result, w')"
    and "exitCode result = 0"
    and "parse E (stdout result) = Inr entries"
    and "length entries = k + 1"
  shows "\<exists>r s'. getStashes E repository s = (Inr r, s') \<and> stashEntryCount r = int k"
  using assms(2-4) by (simp add: getStashes_run [OF assms(1)])

text \<open>C5 in the scripted repository: three stashes and the trailing record.\<close>

theorem getStashes_count_witness:
  "length demo_entries = 3 + 1 \<and>
   (\<exists>r s'. getStashes demo_env demo_repository (script [answer 0 (js ''3'') []]) = (Inr r, s') \<and>
      stashEntryCount r = 3)"
proof -
  have rn: "run demo_env (world (script [answer 0 (js ''3'') []])) (getStashes_args demo_env)
      (path demo_repository) (js ''getStashEntries'') = (answer 0 (js ''3'') [], [])"
    by (simp add: script_def demo_run)
  have ok: "exitCode (answer 0 (js ''3'') []) = 0" by (simp add: answer_def)
  have ps: "parse demo_env (stdout (answer 0 (js ''3'') [])) = Inr demo_entries"
    by (simp add: answer_def demo_parse_3)
  have len: "length demo_entries = 3 + 1" by (simp add: demo_entries_def)
  show ?thesis using getStashes_count [OF rn ok ps len] len by simp
qed

text \<open>
  C10: the count is the number of parsed records minus one whatever that number is; when
  a successful list query parses into no record at all, \<^verbatim>\<open>stashEntryCount\<close> is \<open>-1\<close>.
\<close>

theorem getStashes_count_unconditional:
  assumes "run E (world s) (getStashes_args E) (path repository) (js ''getStashEntries'')
             = (result, w')"
    and "exitCode result = 0"
    and "parse E (stdout result) = Inr entries"
  shows "\<exists>r s'. getStashes E repository s = (Inr r, s') \<and>
           stashEntryCount r = int (length entries) - 1 \<and>
           (entries = [] \<longrightarrow> stashEntryCount r = - 1)"
  using assms(2,3) by (auto simp: getStashes_run [OF assms(1)])

text \<open>C10 in the scripted repository: a successful query with an empty output.\<close>

theorem getStashes_count_unconditional_witness:
  "\<exists>r s'. getStashes demo_env demo_repository (script [answer 0 [] []]) = (Inr r, s') \<and>
      stashEntryCount r = - 1"
proof -
  have rn: "run demo_env (world (script [answer 0 [] []])) (getStashes_args demo_env)
      (path demo_repository) (js ''getStashEntries'') = (answer 0 [] [], [])"
    by (simp add: script_def demo_run)
  have ok: "exitCode (answer 0 [] []) = 0" by (simp add: answer_def)
  have ps: "parse demo_env (stdout (answer 0 [] [])) = Inr []"
    by (simp add: answer_def demo_parse_empty)
  show ?thesis using getStashes_count_unconditional [OF rn ok ps] by simp
qed

text \<open>
  C7: on a catalog result, \<^verbatim>\<open>getLastDesktopStashEntryForBranch\<close> returns the entry of the
  smallest position in \<^verbatim>\<open>desktopEntries\<close> whose \<^verbatim>\<open>branchName\<close> is the branch asked for, and
  null when there is none; for entries on the branches \<open>A\<close>, \<open>B\<close>, \<open>A\<close> in this order, asking
  for \<open>A\<close> gives the first entry.
\<close>

theorem getLastDesktopStashEntryForBranch_first_match:
  assumes "getStashes E repository s = (Inr stash, s')"
  shows "\<exists>r. getLastDesktopStashEntryForBranch E repository branch s = (Inr r, s') \<and>
           (case r of
              None \<Rightarrow> \<forall>e \<in> set (desktopEntries stash). branchName e \<noteq> branch_or_name branch
            | Some e \<Rightarrow>
                \<exists>i < length (desktopEntries stash).
                  desktopEntries stash ! i = e \<and> branchName e = branch_or_name branch \<and>
                  (\<forall>j < i. branchName (desktopEntries stash ! j) \<noteq> branch_or_name branch)) \<and>
           (\<forall>e1 e2 e3. desktopEntries stash = [e1, e2, e3] \<and>
               branchName e1 = branch_or_name branch \<and> branchName e3 = branch_or_name branch
               \<longrightarrow> r = Some e1)"
proof -
  let ?r = "find (\<lambda>e. branchName e = branch_or_name branch) (desktopEntries stash)"
  have rn: "getLastDesktopStashEntryForBranch E repository branch s = (Inr ?r, s')"
    using assms by (simp add: getLastDesktopStashEntryForBranch_def await_def return_def)
  have chr: "(case ?r of
              None \<Rightarrow> \<forall>e \<in> set (desktopEntries stash). branchName e \<noteq> branch_or_name branch
            | Some e \<Rightarrow>
                \<exists>i < length (desktopEntries stash).
                  desktopEntries stash ! i = e \<and> branchName e = branch_or_name branch \<and>
                  (\<forall>j < i. branchName (desktopEntries stash ! j) \<noteq> branch_or_name branch))"
  proof (cases ?r)
    case None
    then have "\<forall>e \<in> set (desktopEntries stash). branchName e \<noteq> branch_or_name branch"
      by (simp add: find_None_iff)
    then show ?thesis unfolding None by simp
  next
    case (Some e)
    then show ?thesis
      using find_first [of "\<lambda>e. branchName e = branch_or_name branch" "desktopEntries stash" e]
      by simp
  qed
  have aba: "\<forall>e1 e2 e3. desktopEntries stash = [e1, e2, e3] \<and>
               branchName e1 = branch_or_name branch \<and> branchName e3 = branch_or_name branch
               \<longrightarrow> ?r = Some e1"
    by auto
  show ?thesis using rn chr aba by blast
qed

text \<open>
  C7 in the scripted repository, whose owned entries are on \<open>A\<close>, \<open>B\<close>, \<open>A\<close>: asking for \<open>A\<close>
  gives the newest entry, at position 0, not the one at position 2.
\<close>

theorem getLastDesktopStashEntryForBranch_first_match_witness:
  "map branchName demo_owned = [js ''A'', js ''B'', js ''A''] \<and>
   demo_owned ! 0 \<noteq> demo_owned ! 2 \<and>
   fst (getLastDesktopStashEntryForBranch demo_env demo_repository (IsString (js ''A''))
          (script [answer 0 (js ''3'') []])) = Inr (Some (demo_owned ! 0))"
proof -
  have g: "getStashes demo_env demo_repository (script [answer 0 (js ''3'') []]) =
        (Inr \<lparr>desktopEntries = demo_owned, stashEntryCount = 3\<rparr>,
         (script [answer 0 (js ''3'') []])\<lparr>world := [],
            invocations := invocations (script [answer 0 (js ''3'') []]) @
              [getStashes_args demo_env]\<rparr>)"
    by (rule demo_getStashes) (simp add: script_def)
  obtain r where r: "getLastDesktopStashEntryForBranch demo_env demo_repository
        (IsString (js ''A'')) (script [answer 0 (js ''3'') []])
      = (Inr r, (script [answer 0 (js ''3'') []])\<lparr>world := [],
            invocations := invocations (script [answer 0 (js ''3'') []]) @
              [getStashes_args demo_env]\<rparr>)"
    and aba: "\<forall>e1 e2 e3.
        desktopEntries \<lparr>desktopEntries = demo_owned, stashEntryCount = 3\<rparr> = [e1, e2, e3] \<and>
        branchName e1 = branch_or_name (IsString (js ''A'')) \<and>
        branchName e3 = branch_or_name (IsString (js ''A'')) \<longrightarrow> r = Some e1"
    using getLastDesktopStashEntryForBranch_first_match [OF g, of "IsString (js ''A'')"] by blast
  have "r = Some (demo_owned ! 0)"
    using aba by (simp add: demo_owned_def branch_or_name_def)
  moreover have "map branchName demo_owned = [js ''A'', js ''B'', js ''A'']"
    "demo_owned ! 0 \<noteq> demo_owned ! 2"
    by (simp_all add: demo_owned_def js_def)
  ultimately show ?thesis using r by simp
qed


section \<open>Claims about the mutations\<close>

text \<open>
  C3: when the \<^verbatim>\<open>commit-tree\<close> command of \<^verbatim>\<open>moveStashEntry\<close> succeeds and the
  \<^verbatim>\<open>stash store\<close> command fails, the operation raises the \<^verbatim>\<open>GitError\<close> of the store command;
  these two commands are all that has run, none of them is the list query or a
  \<^verbatim>\<open>stash drop\<close>, and the repository is as the failed store command left it, so the
  original entry has not been dropped.
\<close>

theorem moveStashEntry_store_failure:
  assumes "run E (world s) (commit_tree_args entry branch) (path repository)
             (js ''moveStashEntryToBranch'') = (created, w1)"
    and "exitCode created = 0"
    and "run E w1 (stash_store_args branch (stdout created)) (path repository)
             (js ''moveStashEntryToBranch'') = (stored, w2)"
    and "exitCode stored \<noteq> 0"
  shows "moveStashEntry E repository entry branch s =
           (Inl (GitError stored (stash_store_args branch (stdout created))),
            s\<lparr>world := w2,
                invocations := invocations s @
                  [commit_tree_args entry branch, stash_store_args branch (stdout created)]\<rparr>) \<and>
         getStashes_args E \<notin>
           {commit_tree_args entry branch, stash_store_args branch (stdout created)} \<and>
         (\<forall>e. dropDesktopStashEntry_args e \<notin>
           {commit_tree_args entry branch, stash_store_args branch (stdout created)})"
proof -
  have "moveStashEntry E repository entry branch s =
           (Inl (GitError stored (stash_store_args branch (stdout created))),
            s\<lparr>world := w2,
                invocations := invocations s @
                  [commit_tree_args entry branch, stash_store_args branch (stdout created)]\<rparr>)"
    using assms(4) by (simp add: moveStashEntry_run [OF assms(1-3)] Let_def)
  moreover have "getStashes_args E \<notin>
           {commit_tree_args entry branch, stash_store_args branch (stdout created)}"
    by (simp add: getStashes_args_def commit_tree_args_def stash_store_args_def js_def Let_def)
  moreover have "\<forall>e. dropDesktopStashEntry_args e \<notin>
           {commit_tree_args entry branch, stash_store_args branch (stdout created)}"
    by (simp add: dropDesktopStashEntry_args_def commit_tree_args_def stash_store_args_def
          js_def Let_def)
  ultimately show ?thesis by blast
qed

text \<open>
  C3 in the scripted repository: \<^verbatim>\<open>commit-tree\<close> prints a commit id, \<^verbatim>\<open>stash store\<close> exits
  with 1.
\<close>

theorem moveStashEntry_store_failure_witness:
  "moveStashEntry demo_env demo_repository (demo_owned ! 0) (js ''B'')
       (script [answer 0 (js ''abc'' @ [0x0A]) [], answer 1 [] (js ''fatal'')]) =
     (Inl (GitError (answer 1 [] (js ''fatal''))
             (stash_store_args (js ''B'') (js ''abc'' @ [0x0A]))),
      \<lparr>world = [],
       invocations = [commit_tree_args (demo_owned ! 0) (js ''B''),
                      stash_store_args (js ''B'') (js ''abc'' @ [0x0A])],
       logged = []\<rparr>)"
proof -
  let ?s = "script [answer 0 (js ''abc'' @ [0x0A]) [], answer 1 [] (js ''fatal'')]"
  have r1: "run demo_env (world ?s) (commit_tree_args (demo_owned ! 0) (js ''B''))
      (path demo_repository) (js ''moveStashEntryToBranch'')
      = (answer 0 (js ''abc'' @ [0x0A]) [], [answer 1 [] (js ''fatal'')])"
    by (simp add: script_def demo_run)
  have ok: "exitCode (answer 0 (js ''abc'' @ [0x0A]) []) = 0" by (simp add: answer_def)
  have r2: "run demo_env [answer 1 [] (js ''fatal'')]
      (stash_store_args (js ''B'') (stdout (answer 0 (js ''abc'' @ [0x0A]) [])))
      (path demo_repository) (js ''moveStashEntryToBranch'')
      = (answer 1 [] (js ''fatal''), [])"
    by (rule demo_run)
  have bad: "exitCode (answer 1 [] (js ''fatal'')) \<noteq> 0" by (simp add: answer_def)
  have out: "stdout (answer 0 (js ''abc'' @ [0x0A]) []) = js ''abc'' @ [0x0A]"
    by (simp add: answer_def)
  show ?thesis
    using moveStashEntry_store_failure [OF r1 ok r2 bad] unfolding out
    by (simp add: script_def)
qed

text \<open>
  C6: after the staging, with the result of \<^verbatim>\<open>git stash push\<close>: on exit code 0
  \<^verbatim>\<open>createDesktopStashEntry\<close> returns false when stdout is exactly
  \<^verbatim>\<open>"No local changes to save\n"\<close> and true otherwise; on exit code 1 it raises if and only
  if stderr has a line beginning with \<^verbatim>\<open>"error: "\<close>, the error being the \<^verbatim>\<open>GitError\<close> of the
  command, and otherwise logs and goes on as on exit code 0, to false for that stdout and
  true for any other.
\<close>

theorem createDesktopStashEntry_outcomes:
  assumes "stageFiles E (world s) repository (map (\<lambda>x. withIncludeAll E x True) fs)
             = (Inr (), w1)"
    and "run E w1 (createDesktopStashEntry_args branch) (path repository)
           (js ''createStashEntry'') = (result, w2)"
  shows "(exitCode result = 0 \<and> stdout result = no_local_changes \<longrightarrow>
            fst (createDesktopStashEntry E repository branch fs s) = Inr False) \<and>
         (exitCode result = 0 \<and> stdout result \<noteq> no_local_changes \<longrightarrow>
            fst (createDesktopStashEntry E repository branch fs s) = Inr True) \<and>
         (exitCode result = 1 \<longrightarrow>
            ((\<exists>e. fst (createDesktopStashEntry E repository branch fs s) = Inl e)
               \<longleftrightarrow> has_error_line (stderr result)) \<and>
            (has_error_line (stderr result) \<longrightarrow>
               fst (createDesktopStashEntry E repository branch fs s)
                 = Inl (GitError result (createDesktopStashEntry_args branch))) \<and>
            (\<not> has_error_line (stderr result) \<longrightarrow>
               fst (createDesktopStashEntry E repository branch fs s)
                 = Inr (stdout result \<noteq> no_local_changes) \<and>
               logged (snd (createDesktopStashEntry E repository branch fs s))
                 = logged s @ [CreateExitCodeReported 1 (stderr result)]))"
  by (simp add: createDesktopStashEntry_run [OF assms] Let_def)

text \<open>
  C6 in the scripted repository: nothing to save, a stash saved, exit code 1 with an
  error line after a warning, and exit code 1 with a warning only.
\<close>

theorem createDesktopStashEntry_outcomes_witness:
  "fst (createDesktopStashEntry demo_env demo_repository (IsString (js ''A'')) []
          (script [answer 0 no_local_changes []])) = Inr False \<and>
   fst (createDesktopStashEntry demo_env demo_repository (IsString (js ''A'')) []
          (script [answer 0 (js ''Saved'') []])) = Inr True \<and>
   fst (createDesktopStashEntry demo_env demo_repository (IsString (js ''A'')) []
          (script [answer 1 [] (js ''warning: w'' @ [0x0A] @ js ''error: e'')]))
     = Inl (GitError (answer 1 [] (js ''warning: w'' @ [0x0A] @ js ''error: e''))
              (createDesktopStashEntry_args (IsString (js ''A'')))) \<and>
   fst (createDesktopStashEntry demo_env demo_repository (IsString (js ''A'')) []
          (script [answer 1 (js ''Saved'') (js ''warning: w'')])) = Inr True"
proof -
  have st: "\<And>rs. stageFiles demo_env (world (script rs)) demo_repository
      (map (\<lambda>x. withIncludeAll demo_env x True) []) = (Inr (), rs)"
    by (simp add: demo_stage script_def)
  have rn: "\<And>r. run demo_env [r] (createDesktopStashEntry_args (IsString (js ''A'')))
      (path demo_repository) (js ''createStashEntry'') = (r, [])"
    by (rule demo_run)
  have e1: "has_error_line (js ''warning: w'' @ [0x0A] @ js ''error: e'')"
    by (simp add: has_error_line_def js_def isLineTerminator_def)
  have e2: "\<not> has_error_line (js ''warning: w'')"
    by (simp add: has_error_line_def js_def isLineTerminator_def)
  have ne: "js ''Saved'' \<noteq> no_local_changes"
    by (simp add: no_local_changes_def js_def)
  show ?thesis
    using createDesktopStashEntry_outcomes [OF st rn, of "answer 0 no_local_changes []"]
      createDesktopStashEntry_outcomes [OF st rn, of "answer 0 (js ''Saved'') []"]
      createDesktopStashEntry_outcomes [OF st rn,
        of "answer 1 [] (js ''warning: w'' @ [0x0A] @ js ''error: e'')"]
      createDesktopStashEntry_outcomes [OF st rn, of "answer 1 (js ''Saved'') (js ''warning: w'')"]
      e1 e2 ne
    by (simp add: answer_def)
qed

text \<open>
  C8, as the code has it: when the owned entries of the catalog have no entry with the
  sha, \<^verbatim>\<open>dropDesktopStashEntry\<close> and \<^verbatim>\<open>popStashEntry\<close> return normally, and the one command
  each of them has run is the list query of the catalog that looked the sha up: no
  \<^verbatim>\<open>stash drop\<close> and no \<^verbatim>\<open>stash pop\<close>, and the repository is as the list query left it.
\<close>

theorem absent_entry_only_list_query:
  assumes "getStashes E repository s = (Inr stash, s')"
    and "\<forall>e \<in> set (desktopEntries stash). stashSha e \<noteq> sha"
  shows "dropDesktopStashEntry E repository sha s = (Inr (), s') \<and>
         popStashEntry E repository sha s = (Inr (), s') \<and>
         s' = s\<lparr>world := snd (run E (world s) (getStashes_args E) (path repository)
                                 (js ''getStashEntries'')),
                 invocations := invocations s @ [getStashes_args E]\<rparr>"
proof -
  have f: "find (\<lambda>e. stashSha e = sha) (desktopEntries stash) = None"
    using assms(2) by (simp add: find_None_iff)
  show ?thesis
    using drop_absent [OF assms(1) f] pop_absent [OF assms(1) f] getStashes_session [OF assms(1)]
    by blast
qed

text \<open>C8 in the scripted repository: no owned entry has the sha \<^verbatim>\<open>zz\<close>.\<close>

theorem absent_entry_only_list_query_witness:
  "dropDesktopStashEntry demo_env demo_repository (js ''zz'') (script [answer 0 (js ''3'') []])
     = (Inr (), \<lparr>world = [], invocations = [getStashes_args demo_env], logged = []\<rparr>) \<and>
   popStashEntry demo_env demo_repository (js ''zz'') (script [answer 0 (js ''3'') []])
     = (Inr (), \<lparr>world = [], invocations = [getStashes_args demo_env], logged = []\<rparr>)"
proof -
  have g: "getStashes demo_env demo_repository (script [answer 0 (js ''3'') []]) =
        (Inr \<lparr>desktopEntries = demo_owned, stashEntryCount = 3\<rparr>,
         (script [answer 0 (js ''3'') []])\<lparr>world := [],
            invocations := invocations (script [answer 0 (js ''3'') []]) @
              [getStashes_args demo_env]\<rparr>)"
    by (rule demo_getStashes) (simp add: script_def)
  have a: "\<forall>e \<in> set (desktopEntries \<lparr>desktopEntries = demo_owned, stashEntryCount = 3\<rparr>).
      stashSha e \<noteq> js ''zz''"
    using demo_find_zz by simp
  show ?thesis
    using absent_entry_only_list_query [OF g a] by (simp add: script_def)
qed

text \<open>
  C8 as stated fails: the owned entries have the shas \<^verbatim>\<open>s0\<close>, \<^verbatim>\<open>s1\<close> and \<^verbatim>\<open>s2\<close>, and for the
  sha \<^verbatim>\<open>zz\<close> \<^verbatim>\<open>dropDesktopStashEntry\<close> does perform an external invocation, the list query.
\<close>

theorem dropDesktopStashEntry_invokes_counterexample:
  "map stashSha demo_owned = [js ''s0'', js ''s1'', js ''s2''] \<and>
   fst (getStashes demo_env demo_repository (script [answer 0 (js ''3'') []]))
     = Inr \<lparr>desktopEntries = demo_owned, stashEntryCount = 3\<rparr> \<and>
   invocations (script [answer 0 (js ''3'') []]) = [] \<and>
   invocations (snd (dropDesktopStashEntry demo_env demo_repository (js ''zz'')
                       (script [answer 0 (js ''3'') []]))) = [getStashes_args demo_env]"
proof -
  have g: "getStashes demo_env demo_repository (script [answer 0 (js ''3'') []]) =
        (Inr \<lparr>desktopEntries = demo_owned, stashEntryCount = 3\<rparr>,
         (script [answer 0 (js ''3'') []])\<lparr>world := [],
            invocations := invocations (script [answer 0 (js ''3'') []]) @
              [getStashes_args demo_env]\<rparr>)"
    by (rule demo_getStashes) (simp add: script_def)
  have f: "find (\<lambda>e. stashSha e = js ''zz'')
        (desktopEntries \<lparr>desktopEntries = demo_owned, stashEntryCount = 3\<rparr>) = None"
    using demo_find_zz by (simp add: find_None_iff)
  have shas: "map stashSha demo_owned = [js ''s0'', js ''s1'', js ''s2'']"
    by (simp add: demo_owned_def)
  show ?thesis
    using shas g drop_absent [OF g f] by (simp add: script_def)
qed

text \<open>
  C2, as the code has it. The sha resolves to an entry \<open>e\<close> and \<^verbatim>\<open>git stash pop\<close> reports
  exit code 1.
  \<^item> With an empty stderr, \<^verbatim>\<open>popStashEntry\<close> logs, calls \<^verbatim>\<open>dropDesktopStashEntry\<close> once for the
    same sha and ends as that call ends. So it completes without raising when the drop
    does: when the list query of the drop succeeds, still finds the sha (as \<open>e'\<close>) and
    \<^verbatim>\<open>git stash drop\<close> exits with 0, the commands that have run are the list query, the
    pop, the list query again and one drop.
  \<^item> With a non-empty stderr it raises the \<^verbatim>\<open>GitError\<close> of the pop command, and the commands
    that have run are the list query and the pop: no drop.
\<close>

theorem popStashEntry_exit_code_1:
  fixes E :: "('w, 'f) env" and s s1 s2 :: "'w session" and w2 :: 'w and e :: IStashEntry
  defines "s2 \<equiv> s1\<lparr>world := w2, invocations := invocations s1 @ [popStashEntry_args e],
                     logged := logged s1 @ [PopExitCodeReported 1]\<rparr>"
  assumes "getStashes E repository s = (Inr stash, s1)"
    and "find (\<lambda>e. stashSha e = sha) (desktopEntries stash) = Some e"
    and "run E (world s1) (popStashEntry_args e) (path repository) (js ''popStashEntry'')
           = (result, w2)"
    and "exitCode result = 1"
  shows "(stderr result = [] \<longrightarrow>
            popStashEntry E repository sha s = dropDesktopStashEntry E repository sha s2 \<and>
            (\<forall>stash' s3 e' dropped w4.
               getStashes E repository s2 = (Inr stash', s3) \<and>
               find (\<lambda>e. stashSha e = sha) (desktopEntries stash') = Some e' \<and>
               run E (world s3) (dropDesktopStashEntry_args e') (path repository)
                 (js ''dropStashEntry'') = (dropped, w4) \<and>
               exitCode dropped = 0 \<longrightarrow>
               popStashEntry E repository sha s =
                 (Inr (),
                  s\<lparr>world := w4,
                      invocations := invocations s @
                        [getStashes_args E, popStashEntry_args e,
                         getStashes_args E, dropDesktopStashEntry_args e'],
                      logged := logged s @ [PopExitCodeReported 1]\<rparr>))) \<and>
         (stderr result \<noteq> [] \<longrightarrow>
            popStashEntry E repository sha s =
              (Inl (GitError result (popStashEntry_args e)),
               s\<lparr>world := w2,
                   invocations := invocations s @ [getStashes_args E, popStashEntry_args e]\<rparr>))"
proof -
  note p = pop_found [OF assms(2-5)]
  have s1: "invocations s1 = invocations s @ [getStashes_args E]" "logged s1 = logged s"
    using getStashes_session [OF assms(2)] by simp_all
  have more1: "session.more s1 = session.more s"
    using getStashes_session [OF assms(2)] by simp
  have quiet: "stderr result = [] \<longrightarrow>
      popStashEntry E repository sha s = dropDesktopStashEntry E repository sha s2"
    using p by (simp add: s2_def)
  have dropped: "popStashEntry E repository sha s =
                 (Inr (),
                  s\<lparr>world := w4,
                      invocations := invocations s @
                        [getStashes_args E, popStashEntry_args e,
                         getStashes_args E, dropDesktopStashEntry_args e'],
                      logged := logged s @ [PopExitCodeReported 1]\<rparr>)"
    if q: "stderr result = []"
      and g: "getStashes E repository s2 = (Inr stash', s3)"
      and f: "find (\<lambda>e. stashSha e = sha) (desktopEntries stash') = Some e'"
      and r: "run E (world s3) (dropDesktopStashEntry_args e') (path repository)
                 (js ''dropStashEntry'') = (dropped, w4)"
      and ok: "exitCode dropped = 0"
    for stash' s3 e' dropped w4
  proof -
    have s3: "invocations s3 = invocations s2 @ [getStashes_args E]" "logged s3 = logged s2"
      "session.more s3 = session.more s2"
      using getStashes_session [OF g] by simp_all
    have "popStashEntry E repository sha s =
        (Inr (), s3\<lparr>world := w4, invocations := invocations s3 @ [dropDesktopStashEntry_args e']\<rparr>)"
      using quiet q drop_found [OF g f r] ok by simp
    moreover have "s3\<lparr>world := w4, invocations := invocations s3 @ [dropDesktopStashEntry_args e']\<rparr>
        = s\<lparr>world := w4,
              invocations := invocations s @
                [getStashes_args E, popStashEntry_args e,
                 getStashes_args E, dropDesktopStashEntry_args e'],
              logged := logged s @ [PopExitCodeReported 1]\<rparr>"
      using s3 s1 more1 by (simp add: s2_def)
    ultimately show ?thesis by simp
  qed
  have loud: "stderr result \<noteq> [] \<longrightarrow>
            popStashEntry E repository sha s =
              (Inl (GitError result (popStashEntry_args e)),
               s\<lparr>world := w2,
                   invocations := invocations s @ [getStashes_args E, popStashEntry_args e]\<rparr>)"
  proof
    assume "stderr result \<noteq> []"
    then have "popStashEntry E repository sha s =
        (Inl (GitError result (popStashEntry_args e)),
         s1\<lparr>world := w2, invocations := invocations s1 @ [popStashEntry_args e]\<rparr>)"
      using p by simp
    moreover have "s1\<lparr>world := w2, invocations := invocations s1 @ [popStashEntry_args e]\<rparr>
        = s\<lparr>world := w2,
              invocations := invocations s @ [getStashes_args E, popStashEntry_args e]\<rparr>"
      using s1 more1 by simp
    ultimately show "popStashEntry E repository sha s =
              (Inl (GitError result (popStashEntry_args e)),
               s\<lparr>world := w2,
                   invocations := invocations s @ [getStashes_args E, popStashEntry_args e]\<rparr>)"
      by simp
  qed
  show ?thesis using quiet dropped loud by blast
qed

text \<open>
  C2 in the scripted repository, for the entry with sha \<^verbatim>\<open>s0\<close>: a pop that exits with 1
  and an empty stderr, followed by a list query that still has the entry and a drop that
  exits with 0; and a pop that exits with 1 and writes to stderr.
\<close>

theorem popStashEntry_exit_code_1_witness:
  "popStashEntry demo_env demo_repository (js ''s0'')
       (script [answer 0 (js ''3'') [], answer 1 [] [], answer 0 (js ''3'') [], answer 0 [] []])
     = (Inr (),
        \<lparr>world = [],
         invocations = [getStashes_args demo_env, popStashEntry_args (demo_owned ! 0),
                        getStashes_args demo_env, dropDesktopStashEntry_args (demo_owned ! 0)],
         logged = [PopExitCodeReported 1]\<rparr>) \<and>
   popStashEntry demo_env demo_repository (js ''s0'')
       (script [answer 0 (js ''3'') [], answer 1 [] (js ''x'')])
     = (Inl (GitError (answer 1 [] (js ''x'')) (popStashEntry_args (demo_owned ! 0))),
        \<lparr>world = [],
         invocations = [getStashes_args demo_env, popStashEntry_args (demo_owned ! 0)],
         logged = []\<rparr>)"
proof -
  let ?cat = "\<lparr>desktopEntries = demo_owned, stashEntryCount = 3\<rparr>"
  have f: "find (\<lambda>e. stashSha e = js ''s0'') (desktopEntries ?cat) = Some (demo_owned ! 0)"
    using demo_find_s0 by simp
  have quiet: "popStashEntry demo_env demo_repository (js ''s0'')
       (script [answer 0 (js ''3'') [], answer 1 [] [], answer 0 (js ''3'') [], answer 0 [] []])
     = (Inr (),
        \<lparr>world = [],
         invocations = [getStashes_args demo_env, popStashEntry_args (demo_owned ! 0),
                        getStashes_args demo_env, dropDesktopStashEntry_args (demo_owned ! 0)],
         logged = [PopExitCodeReported 1]\<rparr>)"
  proof -
    let ?s = "script [answer 0 (js ''3'') [], answer 1 [] [], answer 0 (js ''3'') [], answer 0 [] []]"
    let ?s1 = "?s\<lparr>world := [answer 1 [] [], answer 0 (js ''3'') [], answer 0 [] []],
                   invocations := invocations ?s @ [getStashes_args demo_env]\<rparr>"
    let ?s2 = "?s1\<lparr>world := [answer 0 (js ''3'') [], answer 0 [] []],
                    invocations := invocations ?s1 @ [popStashEntry_args (demo_owned ! 0)],
                    logged := logged ?s1 @ [PopExitCodeReported 1]\<rparr>"
    let ?s3 = "?s2\<lparr>world := [answer 0 [] []],
                    invocations := invocations ?s2 @ [getStashes_args demo_env]\<rparr>"
    have g: "getStashes demo_env demo_repository ?s = (Inr ?cat, ?s1)"
      by (rule demo_getStashes) (simp add: script_def)
    have rn: "run demo_env (world ?s1) (popStashEntry_args (demo_owned ! 0))
        (path demo_repository) (js ''popStashEntry'')
        = (answer 1 [] [], [answer 0 (js ''3'') [], answer 0 [] []])"
      by (simp add: demo_run)
    have one: "exitCode (answer 1 [] []) = 1" and q: "stderr (answer 1 [] []) = []"
      by (simp_all add: answer_def)
    have g2: "getStashes demo_env demo_repository ?s2 = (Inr ?cat, ?s3)"
      by (rule demo_getStashes) simp
    have r2: "run demo_env (world ?s3) (dropDesktopStashEntry_args (demo_owned ! 0))
        (path demo_repository) (js ''dropStashEntry'') = (answer 0 [] [], [])"
      by (simp add: demo_run)
    have ok: "exitCode (answer 0 [] []) = 0" by (simp add: answer_def)
    have "popStashEntry demo_env demo_repository (js ''s0'') ?s =
        (Inr (),
         ?s\<lparr>world := [],
             invocations := invocations ?s @
               [getStashes_args demo_env, popStashEntry_args (demo_owned ! 0),
                getStashes_args demo_env, dropDesktopStashEntry_args (demo_owned ! 0)],
             logged := logged ?s @ [PopExitCodeReported 1]\<rparr>)"
      using popStashEntry_exit_code_1 [OF g f rn one] q g2 f r2 ok by blast
    then show ?thesis by (simp add: script_def)
  qed
  have loud: "popStashEntry demo_env demo_repository (js ''s0'')
       (script [answer 0 (js ''3'') [], answer 1 [] (js ''x'')])
     = (Inl (GitError (answer 1 [] (js ''x'')) (popStashEntry_args (demo_owned ! 0))),
        \<lparr>world = [],
         invocations = [getStashes_args demo_env, popStashEntry_args (demo_owned ! 0)],
         logged = []\<rparr>)"
  proof -
    let ?s = "script [answer 0 (js ''3'') [], answer 1 [] (js ''x'')]"
    let ?s1 = "?s\<lparr>world := [answer 1 [] (js ''x'')],
                   invocations := invocations ?s @ [getStashes_args demo_env]\<rparr>"
    have g: "getStashes demo_env demo_repository ?s = (Inr ?cat, ?s1)"
      by (rule demo_getStashes) (simp add: script_def)
    have rn: "run demo_env (world ?s1) (popStashEntry_args (demo_owned ! 0))
        (path demo_repository) (js ''popStashEntry'') = (answer 1 [] (js ''x''), [])"
      by (simp add: demo_run)
    have one: "exitCode (answer 1 [] (js ''x'')) = 1" and q: "stderr (answer 1 [] (js ''x'')) \<noteq> []"
      by (simp_all add: answer_def js_def)
    have "popStashEntry demo_env demo_repository (js ''s0'') ?s =
        (Inl (GitError (answer 1 [] (js ''x'')) (popStashEntry_args (demo_owned ! 0))),
         ?s\<lparr>world := [],
             invocations := invocations ?s @
               [getStashes_args demo_env, popStashEntry_args (demo_owned ! 0)]\<rparr>)"
      using popStashEntry_exit_code_1 [OF g f rn one] q by blast
    then show ?thesis by (simp add: script_def)
  qed
  show ?thesis using quiet loud by simp
qed

text \<open>
  C2 as stated fails when the list query of the follow-up drop does not bring the entry
  back. The pop of \<^verbatim>\<open>s0\<close> exits with 1 and an empty stderr; when the next list query exits
  with 1, \<^verbatim>\<open>popStashEntry\<close> raises and no drop command has run; when it exits with 128,
  \<^verbatim>\<open>popStashEntry\<close> completes and no drop command has run.
\<close>

theorem popStashEntry_follow_up_counterexample:
  "popStashEntry demo_env demo_repository (js ''s0'')
       (script [answer 0 (js ''3'') [], answer 1 [] [], answer 1 [] (js ''fatal'')])
     = (Inl (GitError (answer 1 [] (js ''fatal'')) (getStashes_args demo_env)),
        \<lparr>world = [],
         invocations = [getStashes_args demo_env, popStashEntry_args (demo_owned ! 0),
                        getStashes_args demo_env],
         logged = [PopExitCodeReported 1]\<rparr>) \<and>
   popStashEntry demo_env demo_repository (js ''s0'')
       (script [answer 0 (js ''3'') [], answer 1 [] [], answer 128 [] []])
     = (Inr (),
        \<lparr>world = [],
         invocations = [getStashes_args demo_env, popStashEntry_args (demo_owned ! 0),
                        getStashes_args demo_env],
         logged = [PopExitCodeReported 1]\<rparr>)"
proof -
  let ?cat = "\<lparr>desktopEntries = demo_owned, stashEntryCount = 3\<rparr>"
  have f: "find (\<lambda>e. stashSha e = js ''s0'') (desktopEntries ?cat) = Some (demo_owned ! 0)"
    using demo_find_s0 by simp
  have one: "exitCode (answer 1 [] []) = 1" and q: "length (stderr (answer 1 [] [])) = 0"
    by (simp_all add: answer_def)
  have raised: "popStashEntry demo_env demo_repository (js ''s0'')
       (script [answer 0 (js ''3'') [], answer 1 [] [], answer 1 [] (js ''fatal'')])
     = (Inl (GitError (answer 1 [] (js ''fatal'')) (getStashes_args demo_env)),
        \<lparr>world = [],
         invocations = [getStashes_args demo_env, popStashEntry_args (demo_owned ! 0),
                        getStashes_args demo_env],
         logged = [PopExitCodeReported 1]\<rparr>)"
  proof -
    let ?s = "script [answer 0 (js ''3'') [], answer 1 [] [], answer 1 [] (js ''fatal'')]"
    let ?s1 = "?s\<lparr>world := [answer 1 [] [], answer 1 [] (js ''fatal'')],
                   invocations := invocations ?s @ [getStashes_args demo_env]\<rparr>"
    let ?s2 = "?s1\<lparr>world := [answer 1 [] (js ''fatal'')],
                    invocations := invocations ?s1 @ [popStashEntry_args (demo_owned ! 0)],
                    logged := logged ?s1 @ [PopExitCodeReported 1]\<rparr>"
    have g: "getStashes demo_env demo_repository ?s = (Inr ?cat, ?s1)"
      by (rule demo_getStashes) (simp add: script_def)
    have rn: "run demo_env (world ?s1) (popStashEntry_args (demo_owned ! 0))
        (path demo_repository) (js ''popStashEntry'')
        = (answer 1 [] [], [answer 1 [] (js ''fatal'')])"
      by (simp add: demo_run)
    have r2: "run demo_env (world ?s2) (getStashes_args demo_env) (path demo_repository)
        (js ''getStashEntries'') = (answer 1 [] (js ''fatal''), [])"
      by (simp add: demo_run)
    have g2: "getStashes demo_env demo_repository ?s2 =
        (Inl (GitError (answer 1 [] (js ''fatal'')) (getStashes_args demo_env)),
         ?s2\<lparr>world := [], invocations := invocations ?s2 @ [getStashes_args demo_env]\<rparr>)"
      unfolding getStashes_run [OF r2] by (simp add: answer_def)
    have "popStashEntry demo_env demo_repository (js ''s0'') ?s =
        dropDesktopStashEntry demo_env demo_repository (js ''s0'') ?s2"
      using pop_found [OF g f rn one] q by simp
    then show ?thesis unfolding drop_query_fails [OF g2] by (simp add: script_def)
  qed
  have skipped: "popStashEntry demo_env demo_repository (js ''s0'')
       (script [answer 0 (js ''3'') [], answer 1 [] [], answer 128 [] []])
     = (Inr (),
        \<lparr>world = [],
         invocations = [getStashes_args demo_env, popStashEntry_args (demo_owned ! 0),
                        getStashes_args demo_env],
         logged = [PopExitCodeReported 1]\<rparr>)"
  proof -
    let ?s = "script [answer 0 (js ''3'') [], answer 1 [] [], answer 128 [] []]"
    let ?s1 = "?s\<lparr>world := [answer 1 [] [], answer 128 [] []],
                   invocations := invocations ?s @ [getStashes_args demo_env]\<rparr>"
    let ?s2 = "?s1\<lparr>world := [answer 128 [] []],
                    invocations := invocations ?s1 @ [popStashEntry_args (demo_owned ! 0)],
                    logged := logged ?s1 @ [PopExitCodeReported 1]\<rparr>"
    have g: "getStashes demo_env demo_repository ?s = (Inr ?cat, ?s1)"
      by (rule demo_getStashes) (simp add: script_def)
    have rn: "run demo_env (world ?s1) (popStashEntry_args (demo_owned ! 0))
        (path demo_repository) (js ''popStashEntry'')
        = (answer 1 [] [], [answer 128 [] []])"
      by (simp add: demo_run)
    have r2: "run demo_env (world ?s2) (getStashes_args demo_env) (path demo_repository)
        (js ''getStashEntries'') = (answer 128 [] [], [])"
      by (simp add: demo_run)
    have g2: "getStashes demo_env demo_repository ?s2 =
        (Inr \<lparr>desktopEntries = [], stashEntryCount = 0\<rparr>,
         ?s2\<lparr>world := [], invocations := invocations ?s2 @ [getStashes_args demo_env]\<rparr>)"
      unfolding getStashes_run [OF r2] by (simp add: answer_def)
    have none: "find (\<lambda>e. stashSha e = js ''s0'')
        (desktopEntries \<lparr>desktopEntries = [], stashEntryCount = 0\<rparr>) = None"
      by simp
    have "popStashEntry demo_env demo_repository (js ''s0'') ?s =
        dropDesktopStashEntry demo_env demo_repository (js ''s0'') ?s2"
      using pop_found [OF g f rn one] q by simp
    then show ?thesis unfolding drop_absent [OF g2 none] by (simp add: script_def)
  qed
  show ?thesis using raised skipped by simp
qed

end
